theory Spec2Isabelle
  imports Complex_Main
begin

text \<open>
  A model of the billable-event ledger of the Financial Portal: the idempotency key
  codec, the fee calculation, the status transitions of billable events, the payments and
  the aging of invoice links, and the storage they work on. Every function of the source
  that the properties below are about is a function here, under its name in the source;
  state is passed explicitly, and what a function throws is a value.
\<close>

section \<open>Strings, characters and the JavaScript library functions used by the portal\<close>

text \<open>
  JavaScript strings are modelled as HOL strings: the characters with a code below 128 are
  the ASCII characters, and a character with a code from 128 on stands for a character
  outside ASCII. The character classes of the regular expressions in the source are ranges
  of ASCII codes (the source uses no \<open>u\<close> or \<open>i\<close> flag).

  \<open>String.prototype.toUpperCase\<close> converts a string character by character. It maps
  the ASCII letters \<open>a-z\<close> to \<open>A-Z\<close> and leaves every other ASCII character alone.
  What it makes of a character outside ASCII is given by the Unicode tables of the engine:
  one character or several, which may be ASCII characters (the sharp s becomes \<open>SS\<close>).
  These tables are a parameter \<open>upperOther\<close> of the functions that uppercase a string.
\<close>

definition isUpperAZ :: "char \<Rightarrow> bool" where
  "isUpperAZ c = (65 \<le> (of_char c :: nat) \<and> (of_char c :: nat) \<le> 90)"

definition isLowerAZ :: "char \<Rightarrow> bool" where
  "isLowerAZ c = (97 \<le> (of_char c :: nat) \<and> (of_char c :: nat) \<le> 122)"

definition isDigit :: "char \<Rightarrow> bool" where
  "isDigit c = (48 \<le> (of_char c :: nat) \<and> (of_char c :: nat) \<le> 57)"

definition isHyphen :: "char \<Rightarrow> bool" where
  "isHyphen c = (c = CHR ''-'')"

definition isUnderscore :: "char \<Rightarrow> bool" where
  "isUnderscore c = (c = CHR ''_'')"

text \<open>The class \<open>[A-Z0-9]\<close>.\<close>

definition isClientCodeChar :: "char \<Rightarrow> bool" where
  "isClientCodeChar c = (isUpperAZ c \<or> isDigit c)"

text \<open>The class \<open>[A-Za-z0-9_-]\<close>.\<close>

definition isControlChar :: "char \<Rightarrow> bool" where
  "isControlChar c = (isUpperAZ c \<or> isLowerAZ c \<or> isDigit c \<or> isUnderscore c \<or> isHyphen c)"

text \<open>The class \<open>[A-Z_]\<close>.\<close>

definition isFeeTypeChar :: "char \<Rightarrow> bool" where
  "isFeeTypeChar c = (isUpperAZ c \<or> isUnderscore c)"

definition toUpperChar :: "char \<Rightarrow> char" where
  "toUpperChar c = (if isLowerAZ c then char_of ((of_char c :: nat) - 32) else c)"

definition isAscii :: "char \<Rightarrow> bool" where
  "isAscii c = ((of_char c :: nat) < 128)"

definition toUpperCase :: "(char \<Rightarrow> string) \<Rightarrow> string \<Rightarrow> string" where
  "toUpperCase upperOther s =
     concat (map (\<lambda>c. if isAscii c then [toUpperChar c] else upperOther c) s)"

text \<open>\<open>s.slice(i, j)\<close> for \<open>0 \<le> i \<le> j\<close>.\<close>

definition slice :: "string \<Rightarrow> nat \<Rightarrow> nat \<Rightarrow> string" where
  "slice s i j = take (j - i) (drop i s)"

subsection \<open>Dates\<close>

text \<open>
  A valid JavaScript \<open>Date\<close> is represented by its calendar fields in the local time of
  the process (\<open>getFullYear\<close>, month \<open>1..12\<close>, day of the month), which are what
  \<open>format\<close> reads. Parsing a string with \<open>new Date(s)\<close> is defined by the engine and
  its result in local time depends on the time zone of the process; it is a parameter
  \<open>newDate\<close> of the functions that use it, with \<open>None\<close> for an Invalid Date.

  \<open>format(d, 'yyyyMMdd')\<close> of the library date-fns renders the year padded with zeros
  to at least four digits (a year below one is rendered as \<open>1 - year\<close>), and the month and the
  day padded to two digits. It throws a RangeError on an Invalid Date.
\<close>

record JsDate =
  fullYear :: int
  monthOfYear :: nat
  dayOfMonth :: nat

definition digitChar :: "nat \<Rightarrow> char" where
  "digitChar d = char_of (48 + d mod 10)"

fun showNat :: "nat \<Rightarrow> string" where
  "showNat n = (if n < 10 then [digitChar n] else showNat (n div 10) @ [digitChar n])"

declare showNat.simps [simp del]

definition addLeadingZeros :: "nat \<Rightarrow> nat \<Rightarrow> string" where
  "addLeadingZeros n targetLength =
     replicate (targetLength - length (showNat n)) (CHR ''0'') @ showNat n"

definition format_yyyyMMdd :: "JsDate \<Rightarrow> string" where
  "format_yyyyMMdd d =
     (let signedYear = fullYear d;
          year = (if signedYear > 0 then nat signedYear else nat (1 - signedYear))
      in addLeadingZeros year 4 @ addLeadingZeros (monthOfYear d) 2
           @ addLeadingZeros (dayOfMonth d) 2)"


section \<open>Errors\<close>

text \<open>
  The values the modelled functions can throw: the error classes of \<open>utils/errors.ts\<close>
  that the modelled code raises, a plain \<open>Error\<close> (thrown by the storage layer), the
  RangeError of date-fns on an Invalid Date, and the ZodError of a failed schema parse.
\<close>

datatype Thrown =
    ValidationError string "(string \<times> string) list"
  | NotFoundError string string
  | DuplicateError string
  | PlainError string
  | RangeError string
  | ZodError string

text \<open>The \<open>code\<close> field that \<open>AppError\<close> gives each of its subclasses.\<close>

fun errorCode :: "Thrown \<Rightarrow> string option" where
  "errorCode (ValidationError m fs) = Some ''VALIDATION_ERROR''"
| "errorCode (NotFoundError r i) = Some ''NOT_FOUND''"
| "errorCode (DuplicateError k) = Some ''DUPLICATE_ENTRY''"
| "errorCode (PlainError m) = None"
| "errorCode (RangeError m) = None"
| "errorCode (ZodError m) = None"

text \<open>
  The error kinds that the specification names, to compare the code with, and the kind of
  a thrown error as its class and code give it. No error class of the code stands for an
  illegal transition or for an unavailable fee.
\<close>

datatype ErrorKind =
  Validation | Duplicate | NotFound | IllegalTransition | FeeUnavailable | IntegrationFailure

fun errorKind :: "Thrown \<Rightarrow> ErrorKind option" where
  "errorKind (ValidationError m fs) = Some Validation"
| "errorKind (NotFoundError r i) = Some NotFound"
| "errorKind (DuplicateError k) = Some Duplicate"
| "errorKind (PlainError m) = None"
| "errorKind (RangeError m) = None"
| "errorKind (ZodError m) = None"

section \<open>Enumerations of \<open>utils/validators.ts\<close>\<close>

datatype CurrencyCode =
  USD | EUR | GBP | CAD | AUD | NZD | CHF | JPY | SGD | HKD | NOK | SEK | DKK

datatype FeeType =
    PLACEMENT_FEE | ONBOARD_FEE | PROCESSING_FEE | EXTENSION_FEE
  | CANCELLATION_FEE | REFUND | CREDIT | OTHER

fun feeTypeString :: "FeeType \<Rightarrow> string" where
  "feeTypeString PLACEMENT_FEE = ''PLACEMENT_FEE''"
| "feeTypeString ONBOARD_FEE = ''ONBOARD_FEE''"
| "feeTypeString PROCESSING_FEE = ''PROCESSING_FEE''"
| "feeTypeString EXTENSION_FEE = ''EXTENSION_FEE''"
| "feeTypeString CANCELLATION_FEE = ''CANCELLATION_FEE''"
| "feeTypeString REFUND = ''REFUND''"
| "feeTypeString CREDIT = ''CREDIT''"
| "feeTypeString OTHER = ''OTHER''"

datatype BillableEventStatus =
    PENDING | APPROVED | INVOICED | PAID | PARTIAL | OVERDUE | HOLD
  | CANCELLED | REFUNDED | CREDITED

datatype QBInvoiceStatus =
    QB_DRAFT | QB_PENDING | QB_SENT | QB_VIEWED | QB_PARTIAL | QB_PAID
  | QB_OVERDUE | QB_VOIDED

fun statusString :: "BillableEventStatus \<Rightarrow> string" where
  "statusString PENDING = ''PENDING''"
| "statusString APPROVED = ''APPROVED''"
| "statusString INVOICED = ''INVOICED''"
| "statusString PAID = ''PAID''"
| "statusString PARTIAL = ''PARTIAL''"
| "statusString OVERDUE = ''OVERDUE''"
| "statusString HOLD = ''HOLD''"
| "statusString CANCELLED = ''CANCELLED''"
| "statusString REFUNDED = ''REFUNDED''"
| "statusString CREDITED = ''CREDITED''"

section \<open>Idempotency keys (\<open>models/BillableEvent.ts\<close>)\<close>

text \<open>The argument \<open>triggerDate: string | Date\<close>; a Date object may be an Invalid Date.\<close>

datatype TriggerDate = DateString string | DateObject "JsDate option"

text \<open>
  \<open>generateIdempotencyKey\<close>. The control number loses every character outside
  \<open>[A-Za-z0-9_-]\<close> and is uppercased; the client code is uppercased; the date is
  rendered with \<open>format(..., 'yyyyMMdd')\<close>, which throws on an Invalid Date.
\<close>

definition generateIdempotencyKey ::
  "(char \<Rightarrow> string) \<Rightarrow> (string \<Rightarrow> JsDate option) \<Rightarrow> string \<Rightarrow> string \<Rightarrow> TriggerDate
     \<Rightarrow> FeeType \<Rightarrow> Thrown + string" where
  "generateIdempotencyKey upperOther newDate clientCode controlNumber triggerDate feeType =
     (case (case triggerDate of DateString s \<Rightarrow> newDate s | DateObject d \<Rightarrow> d) of
        None \<Rightarrow> Inl (RangeError ''Invalid time value'')
      | Some d \<Rightarrow>
          (let dateStr = format_yyyyMMdd d;
               sanitizedControlNumber =
                 toUpperCase upperOther (filter isControlChar controlNumber)
           in Inr (toUpperCase upperOther clientCode @ ''-'' @ sanitizedControlNumber @ ''-''
                     @ dateStr @ ''-'' @ feeTypeString feeType)))"

text \<open>
  The regular expression \<open>^([A-Z0-9]+)-([A-Za-z0-9_-]+)-(\d{8})-([A-Z_]+)$\<close> as a
  backtracking matcher: every piece returns the list of its possible matches, the
  preferred (greedy, longest) one first, each with the rest of the input;
  \<open>String.prototype.match\<close> takes the first complete match.
\<close>

fun classPlus :: "(char \<Rightarrow> bool) \<Rightarrow> string \<Rightarrow> (string \<times> string) list" where
  "classPlus P [] = []"
| "classPlus P (c # cs) =
     (if P c then map (\<lambda>(g, r). (c # g, r)) (classPlus P cs) @ [([c], cs)] else [])"

definition classTimes :: "(char \<Rightarrow> bool) \<Rightarrow> nat \<Rightarrow> string \<Rightarrow> (string \<times> string) list" where
  "classTimes P n s =
     (if n \<le> length s \<and> list_all P (take n s) then [(take n s, drop n s)] else [])"

definition literalChar :: "char \<Rightarrow> string \<Rightarrow> string list" where
  "literalChar ch s = (case s of [] \<Rightarrow> [] | c # cs \<Rightarrow> if c = ch then [cs] else [])"

definition endOfInput :: "string \<Rightarrow> unit list" where
  "endOfInput s = (if s = [] then [()] else [])"

definition matchKey :: "string \<Rightarrow> (string \<times> string \<times> string \<times> string) list" where
  "matchKey key =
     List.bind (classPlus isClientCodeChar key) (\<lambda>(g1, r1).
     List.bind (literalChar (CHR ''-'') r1) (\<lambda>r2.
     List.bind (classPlus isControlChar r2) (\<lambda>(g2, r3).
     List.bind (literalChar (CHR ''-'') r3) (\<lambda>r4.
     List.bind (classTimes isDigit 8 r4) (\<lambda>(g3, r5).
     List.bind (literalChar (CHR ''-'') r5) (\<lambda>r6.
     List.bind (classPlus isFeeTypeChar r6) (\<lambda>(g4, r7).
     List.bind (endOfInput r7) (\<lambda>_. [(g1, g2, g3, g4)]))))))))"

record ParsedKey =
  pkClientCode :: string
  pkControlNumber :: string
  pkTriggerDate :: string
  pkFeeType :: string

definition parseIdempotencyKey :: "string \<Rightarrow> ParsedKey option" where
  "parseIdempotencyKey key =
     (case matchKey key of
        [] \<Rightarrow> None
      | (clientCode, controlNumber, dateStr, feeType) # _ \<Rightarrow>
          (let triggerDate = slice dateStr 0 4 @ ''-'' @ slice dateStr 4 6 @ ''-''
                               @ slice dateStr 6 8
           in Some \<lparr>pkClientCode = clientCode, pkControlNumber = controlNumber,
                    pkTriggerDate = triggerDate, pkFeeType = feeType\<rparr>))"

text \<open>\<open>IdempotencyKeySchema\<close>: the same pattern, used as a test.\<close>

definition IdempotencyKeySchema :: "string \<Rightarrow> bool" where
  "IdempotencyKeySchema key = (matchKey key \<noteq> [])"

text \<open>
  The calendar fields of a valid \<open>Date\<close>, and the rendering \<open>yyyy-MM-dd\<close> of a date,
  used to state what parsing a key gives back.
\<close>

definition validCalendarDate :: "JsDate \<Rightarrow> bool" where
  "validCalendarDate d =
     (1 \<le> monthOfYear d \<and> monthOfYear d \<le> 12 \<and> 1 \<le> dayOfMonth d \<and> dayOfMonth d \<le> 31)"

definition renderedYear :: "JsDate \<Rightarrow> nat" where
  "renderedYear d = (if fullYear d > 0 then nat (fullYear d) else nat (1 - fullYear d))"

definition isoDate :: "JsDate \<Rightarrow> string" where
  "isoDate d = addLeadingZeros (renderedYear d) 4 @ ''-'' @ addLeadingZeros (monthOfYear d) 2
                 @ ''-'' @ addLeadingZeros (dayOfMonth d) 2"

text \<open>
  Examples of \<open>new Date(s)\<close>, for the concrete evaluations below. A string with a date
  and no time is parsed as midnight UTC of that date. In a process whose time zone is UTC
  or east of it (\<open>exampleNewDate\<close>) the local date of that instant is the date written;
  in a process whose time zone is west of UTC, such as America/New_York
  (\<open>westernNewDate\<close>), it is the evening of the day before.
\<close>

definition exampleNewDate :: "string \<Rightarrow> JsDate option" where
  "exampleNewDate s =
     (if s = ''2023-12-15'' then Some \<lparr>fullYear = 2023, monthOfYear = 12, dayOfMonth = 15\<rparr>
      else if s = ''+010000-12-15'' then Some \<lparr>fullYear = 10000, monthOfYear = 12, dayOfMonth = 15\<rparr>
      else None)"

definition westernNewDate :: "string \<Rightarrow> JsDate option" where
  "westernNewDate s =
     (if s = ''2023-12-15'' then Some \<lparr>fullYear = 2023, monthOfYear = 12, dayOfMonth = 14\<rparr>
      else None)"

text \<open>
  An example of the engine's uppercase table for the characters outside ASCII, of which
  the evaluations below use one entry: the sharp s (code 223) becomes \<open>SS\<close>. No other
  entry of the example is used.
\<close>

definition exampleUpperOther :: "char \<Rightarrow> string" where
  "exampleUpperOther c = (if c = CHR 0xDF then ''SS'' else [c])"

section \<open>JavaScript numbers\<close>

text \<open>
  A JavaScript number is an IEEE 754 double. The model has the finite doubles, each as the
  real number it is: a double is \<open>m * 2 ^ e\<close> for integers \<open>m\<close> and \<open>e\<close> with
  \<open>\<bar>m\<bar> < 2 ^ 53\<close> and \<open>e \<ge> -1074\<close>. A number written in decimal, and
  the result of \<open>+\<close>, \<open>-\<close>, \<open>*\<close> and \<open>/\<close>, is the exact value rounded to the
  nearest double, a tie going to the double with the even significand
  (\<open>roundToDouble\<close>): the value \<open>x\<close> lies in a binade
  \<open>2 ^ E \<le> \<bar>x\<bar> < 2 ^ (E + 1)\<close>, in which the doubles are the multiples of
  \<open>2 ^ (E - 52)\<close>, or of \<open>2 ^ -1074\<close> below \<open>2 ^ -1022\<close>, and \<open>x\<close> is rounded to
  the nearest of these multiples. The doubles are the numbers that rounding leaves as they
  are (\<open>isDouble\<close>). The comparisons, \<open>Math.max\<close>, \<open>Math.min\<close> and \<open>Math.round\<close>
  are exact on doubles.

  The model has no NaN and no infinities: a result beyond the largest double (about
  \<open>1.8e308\<close>, where JavaScript gives \<open>Infinity\<close>) and a division by zero are outside
  it (every division of the modelled code is by 100), and the two zeros are one number.
\<close>

definition roundHalfEven :: "real \<Rightarrow> int" where
  "roundHalfEven y =
     (let f = \<lfloor>y\<rfloor>; d = y - of_int f
      in if d < 1 / 2 then f else if 1 / 2 < d then f + 1 else if even f then f else f + 1)"

definition binadeExponent :: "real \<Rightarrow> int" where
  "binadeExponent x = \<lfloor>log 2 \<bar>x\<bar>\<rfloor>"

definition ulpExponent :: "real \<Rightarrow> int" where
  "ulpExponent x = max (binadeExponent x - 52) (- 1074)"

definition roundToDouble :: "real \<Rightarrow> real" where
  "roundToDouble x =
     (if x = 0 then 0
      else of_int (roundHalfEven (x / 2 powr of_int (ulpExponent x)))
             * 2 powr of_int (ulpExponent x))"

definition isDouble :: "real \<Rightarrow> bool" where
  "isDouble x = (roundToDouble x = x)"

definition jsAdd :: "real \<Rightarrow> real \<Rightarrow> real" where
  "jsAdd x y = roundToDouble (x + y)"

definition jsSub :: "real \<Rightarrow> real \<Rightarrow> real" where
  "jsSub x y = roundToDouble (x - y)"

definition jsMul :: "real \<Rightarrow> real \<Rightarrow> real" where
  "jsMul x y = roundToDouble (x * y)"

definition jsDiv :: "real \<Rightarrow> real \<Rightarrow> real" where
  "jsDiv x y = roundToDouble (x / y)"

text \<open>
  \<open>Math.round\<close> gives the nearest integer, a half going towards plus infinity; the
  result is exact.
\<close>

definition mathRound :: "real \<Rightarrow> real" where
  "mathRound x = of_int \<lfloor>x + 1 / 2\<rfloor>"

section \<open>Client policies and fee calculation (\<open>models/ClientPolicy.ts\<close>, \<open>PolicyService.calculateFee\<close>)\<close>

datatype CalculationType = FIXED | PERCENTAGE | TIERED

datatype TierCalculationType = TIER_FIXED | TIER_PERCENTAGE

record Tier =
  fromAmount :: real
  toAmount :: "real option"
  tierValue :: real
  tierCalculationType :: TierCalculationType

record FeeRule =
  ruleFeeType :: FeeType
  calculationType :: CalculationType
  ruleValue :: real
  minimumFee :: "real option"
  maximumFee :: "real option"
  tiers :: "Tier list option"

record ClientPolicy =
  policyId :: string
  policyClientId :: string
  policyClientCode :: string
  policyClientName :: string
  policyVersion :: nat
  feeRules :: "FeeRule list"
  policyCurrency :: CurrencyCode
  isActive :: bool

record FeeCalc =
  fcAmount :: real
  fcCurrency :: CurrencyCode

text \<open>The tier test of the \<open>TIERED\<close> case.\<close>

definition tierMatches :: "real \<Rightarrow> Tier \<Rightarrow> bool" where
  "tierMatches baseAmount t =
     (baseAmount \<ge> fromAmount t \<and>
      (case toAmount t of None \<Rightarrow> True | Some to \<Rightarrow> baseAmount \<le> to))"

text \<open>
  \<open>calculateFee\<close>; \<open>None\<close> is the source's \<open>null\<close>. The amount of the selected case
  is an option here (the source returns \<open>null\<close> from inside the \<open>switch\<close>); the caps and the
  rounding \<open>Math.round(amount * 100) / 100\<close> follow.
\<close>

definition calculateFee :: "ClientPolicy \<Rightarrow> FeeType \<Rightarrow> real option \<Rightarrow> FeeCalc option" where
  "calculateFee policy feeType baseAmount =
     (case find (\<lambda>r. ruleFeeType r = feeType) (feeRules policy) of
        None \<Rightarrow> None
      | Some feeRule \<Rightarrow>
          (case (case calculationType feeRule of
                   FIXED \<Rightarrow> Some (ruleValue feeRule)
                 | PERCENTAGE \<Rightarrow>
                     (case baseAmount of
                        None \<Rightarrow> None
                      | Some b \<Rightarrow> Some (jsDiv (jsMul b (ruleValue feeRule)) 100))
                 | TIERED \<Rightarrow>
                     (case (tiers feeRule, baseAmount) of
                        (Some ts, Some b) \<Rightarrow>
                          (case find (tierMatches b) ts of
                             None \<Rightarrow> None
                           | Some tier \<Rightarrow>
                               Some (if tierCalculationType tier = TIER_FIXED
                                     then tierValue tier
                                     else jsDiv (jsMul b (tierValue tier)) 100))
                      | _ \<Rightarrow> None)) of
             None \<Rightarrow> None
           | Some amount0 \<Rightarrow>
               (let amount1 = (case minimumFee feeRule of
                                 None \<Rightarrow> amount0 | Some mn \<Rightarrow> max amount0 mn);
                    amount2 = (case maximumFee feeRule of
                                 None \<Rightarrow> amount1 | Some mx \<Rightarrow> min amount1 mx)
                in Some \<lparr>fcAmount = jsDiv (mathRound (jsMul amount2 100)) 100,
                         fcCurrency = policyCurrency policy\<rparr>)))"

text \<open>
  The words of the specification, to compare the code with: an amount is first raised to
  the minimum fee if one is set, then lowered to the maximum fee if one is set; and a tier
  contains a base amount when the amount lies in the half-open interval from
  \<open>fromAmount\<close> up to, but not including, \<open>toAmount\<close>.
\<close>

definition clampLowThenHigh :: "real option \<Rightarrow> real option \<Rightarrow> real \<Rightarrow> real" where
  "clampLowThenHigh mn mx x =
     (let raised = (case mn of None \<Rightarrow> x | Some lo \<Rightarrow> if x < lo then lo else x)
      in case mx of None \<Rightarrow> raised | Some hi \<Rightarrow> if hi < raised then hi else raised)"

definition tierContainsHalfOpen :: "real \<Rightarrow> Tier \<Rightarrow> bool" where
  "tierContainsHalfOpen b t =
     (fromAmount t \<le> b \<and> (case toAmount t of None \<Rightarrow> True | Some to \<Rightarrow> b < to))"

text \<open>Example policies for the concrete evaluations below.\<close>

definition percentageRule :: FeeRule where
  "percentageRule =
     \<lparr>ruleFeeType = PLACEMENT_FEE, calculationType = PERCENTAGE, ruleValue = 15,
      minimumFee = Some 100, maximumFee = Some 2000, tiers = None\<rparr>"

definition fixedRule :: FeeRule where
  "fixedRule =
     \<lparr>ruleFeeType = ONBOARD_FEE, calculationType = FIXED, ruleValue = 500,
      minimumFee = None, maximumFee = None, tiers = None\<rparr>"

definition lowTier :: Tier where
  "lowTier = \<lparr>fromAmount = 0, toAmount = Some 1000, tierValue = 100,
               tierCalculationType = TIER_FIXED\<rparr>"

definition highTier :: Tier where
  "highTier = \<lparr>fromAmount = 1000, toAmount = None, tierValue = 20,
                tierCalculationType = TIER_PERCENTAGE\<rparr>"

definition tieredRule :: FeeRule where
  "tieredRule =
     \<lparr>ruleFeeType = PROCESSING_FEE, calculationType = TIERED, ruleValue = 0,
      minimumFee = None, maximumFee = None,
      tiers = Some [lowTier, highTier]\<rparr>"

definition examplePolicy :: ClientPolicy where
  "examplePolicy =
     \<lparr>policyId = ''policy-1'', policyClientId = ''client-1'', policyClientCode = ''acme'',
      policyClientName = ''Acme Crewing'', policyVersion = 1,
      feeRules = [percentageRule, fixedRule, tieredRule],
      policyCurrency = EUR, isActive = True\<rparr>"

section \<open>Billable events (\<open>models/BillableEvent.ts\<close>)\<close>

record StatusEntry =
  seStatus :: BillableEventStatus
  seTimestamp :: string
  seUserId :: string
  seReason :: "string option"

text \<open>
  Of \<open>sourceData\<close> the model keeps the salary, the one field the services read. The
  fields \<open>candidateName\<close>, \<open>tags\<close> and the exchange-rate fields, which no modelled
  function reads, are left out.
\<close>

record BillableEvent =
  evId :: string
  idempotencyKey :: string
  evClientId :: string
  evClientCode :: string
  evClientName :: string
  evControlNumber :: string
  evCandidateEmail :: "string option"
  evTriggerDate :: string
  evTriggerType :: string
  evFeeType :: FeeType
  evAmount :: real
  evCurrency :: CurrencyCode
  evStatus :: BillableEventStatus
  statusHistory :: "StatusEntry list"
  evPolicyId :: string
  evPolicyVersion :: nat
  evSalary :: "real option"
  approvedAt :: "string option"
  approvedBy :: "string option"
  approvalNotes :: "string option"
  holdReason :: "string option"
  holdAt :: "string option"
  holdBy :: "string option"
  evNotes :: "string option"
  createdAt :: string
  createdBy :: string
  updatedAt :: string
  updatedBy :: string

text \<open>The input object of \<open>createBillableEvent\<close>.\<close>

record NewEventInput =
  neClientId :: string
  neClientCode :: string
  neClientName :: string
  neControlNumber :: string
  neCandidateEmail :: "string option"
  neTriggerDate :: string
  neTriggerType :: string
  neFeeType :: FeeType
  neAmount :: real
  neCurrency :: CurrencyCode
  nePolicyId :: string
  nePolicyVersion :: nat
  neSalary :: "real option"
  neCreatedBy :: string
  neNotes :: "string option"

text \<open>
  What the functions take from outside: the engine's uppercase table for the characters
  outside ASCII, the engine's \<open>new Date(s)\<close> and the test zod
  applies to an e-mail address. The clock (\<open>new Date().toISOString()\<close>) and
  \<open>crypto.randomUUID()\<close> are arguments \<open>now\<close> and \<open>uuid\<close> of the functions that
  read them; a service call hands the same \<open>now\<close> to every function it calls.
\<close>

record Env =
  envUpperOther :: "char \<Rightarrow> string"
  envNewDate :: "string \<Rightarrow> JsDate option"
  envIsEmail :: "string \<Rightarrow> bool"

text \<open>
  \<open>createBillableEvent\<close>: the key is generated, then \<open>BillableEventSchema.parse\<close>
  checks the object: the key against its pattern and the candidate's e-mail address (the
  other fields are well formed by their types).
\<close>

definition createBillableEvent ::
  "Env \<Rightarrow> NewEventInput \<Rightarrow> string \<Rightarrow> string \<Rightarrow> Thrown + BillableEvent" where
  "createBillableEvent env input now uuid =
     (case generateIdempotencyKey (envUpperOther env) (envNewDate env) (neClientCode input)
             (neControlNumber input) (DateString (neTriggerDate input)) (neFeeType input) of
        Inl e \<Rightarrow> Inl e
      | Inr key \<Rightarrow>
          if \<not> IdempotencyKeySchema key then Inl (ZodError ''idempotencyKey'')
          else if (case neCandidateEmail input of None \<Rightarrow> False
                   | Some m \<Rightarrow> \<not> envIsEmail env m) then Inl (ZodError ''candidateEmail'')
          else Inr \<lparr>evId = uuid, idempotencyKey = key,
                     evClientId = neClientId input, evClientCode = neClientCode input,
                     evClientName = neClientName input,
                     evControlNumber = neControlNumber input,
                     evCandidateEmail = neCandidateEmail input,
                     evTriggerDate = neTriggerDate input, evTriggerType = neTriggerType input,
                     evFeeType = neFeeType input, evAmount = neAmount input,
                     evCurrency = neCurrency input, evStatus = PENDING,
                     statusHistory = [\<lparr>seStatus = PENDING, seTimestamp = now,
                                        seUserId = neCreatedBy input,
                                        seReason = Some ''Created from Smartsheet data''\<rparr>],
                     evPolicyId = nePolicyId input, evPolicyVersion = nePolicyVersion input,
                     evSalary = neSalary input,
                     approvedAt = None, approvedBy = None, approvalNotes = None,
                     holdReason = None, holdAt = None, holdBy = None,
                     evNotes = neNotes input,
                     createdAt = now, createdBy = neCreatedBy input,
                     updatedAt = now, updatedBy = neCreatedBy input\<rparr>)"

definition updateEventStatus ::
  "BillableEvent \<Rightarrow> BillableEventStatus \<Rightarrow> string \<Rightarrow> string option \<Rightarrow> string
     \<Rightarrow> BillableEvent" where
  "updateEventStatus event newStatus userId reason now =
     event\<lparr>evStatus := newStatus,
            statusHistory := statusHistory event @
              [\<lparr>seStatus = newStatus, seTimestamp = now, seUserId = userId,
                seReason = reason\<rparr>],
            updatedAt := now, updatedBy := userId\<rparr>"

section \<open>Invoice links (\<open>models/InvoiceLink.ts\<close>)\<close>

record PaymentRecord =
  qbPaymentId :: string
  paymentDate :: string
  payAmount :: real
  payCurrency :: CurrencyCode
  syncedAt :: string

datatype HistorySource = PORTAL | QB_SYNC

record LinkStatusEntry =
  lsStatus :: QBInvoiceStatus
  lsTimestamp :: string
  lsSource :: HistorySource

record InvoiceLink =
  linkId :: string
  billableEventId :: string
  linkIdempotencyKey :: string
  qbInvoiceId :: string
  qbDocNumber :: string
  invoiceDate :: string
  dueDate :: string
  linkAmount :: real
  linkCurrency :: CurrencyCode
  qbStatus :: QBInvoiceStatus
  linkStatusHistory :: "LinkStatusEntry list"
  totalPaid :: real
  balance :: real
  payments :: "PaymentRecord list"
  paidInFullDate :: "string option"
  lastSyncedAt :: string
  linkUpdatedAt :: string

definition recordPayment :: "InvoiceLink \<Rightarrow> PaymentRecord \<Rightarrow> string \<Rightarrow> InvoiceLink" where
  "recordPayment invoiceLink payment now =
     (let newTotalPaid = jsAdd (totalPaid invoiceLink) (payAmount payment);
          newBalance = jsSub (linkAmount invoiceLink) newTotalPaid;
          newStatus = (if newBalance \<le> 0 then QB_PAID
                       else if newTotalPaid > 0 then QB_PARTIAL
                       else qbStatus invoiceLink);
          newPaidInFullDate = (if newBalance \<le> 0 then Some (paymentDate payment)
                               else paidInFullDate invoiceLink)
      in invoiceLink\<lparr>totalPaid := newTotalPaid,
                       balance := max 0 newBalance,
                       payments := payments invoiceLink @ [payment],
                       paidInFullDate := newPaidInFullDate,
                       qbStatus := newStatus,
                       linkStatusHistory := linkStatusHistory invoiceLink @
                         [\<lparr>lsStatus = newStatus, lsTimestamp = now, lsSource = QB_SYNC\<rparr>],
                       lastSyncedAt := now,
                       linkUpdatedAt := now\<rparr>)"

text \<open>
  \<open>getDaysOverdue\<close>. \<open>getTime\<close> is \<open>new Date(s).getTime()\<close>, the milliseconds since
  the epoch, with \<open>None\<close> for the NaN of an Invalid Date; \<open>nowMs\<close> is the clock. The
  result is \<open>None\<close> where the source computes NaN (\<open>Math.max(0, NaN)\<close> is NaN).
\<close>

definition getDaysOverdue :: "(string \<Rightarrow> int option) \<Rightarrow> int \<Rightarrow> InvoiceLink \<Rightarrow> int option" where
  "getDaysOverdue getTime nowMs invoiceLink =
     (if qbStatus invoiceLink = QB_PAID \<or> balance invoiceLink \<le> 0 then Some 0
      else (case getTime (dueDate invoiceLink) of
              None \<Rightarrow> None
            | Some dueMs \<Rightarrow>
                (let diffTime = nowMs - dueMs;
                     diffDays = \<lceil>real_of_int diffTime / (1000 * 60 * 60 * 24)\<rceil>
                 in Some (max 0 diffDays))))"

text \<open>\<open>isOverdue\<close>: a comparison with NaN is false.\<close>

definition isOverdue :: "(string \<Rightarrow> int option) \<Rightarrow> int \<Rightarrow> InvoiceLink \<Rightarrow> bool" where
  "isOverdue getTime nowMs invoiceLink =
     (case getDaysOverdue getTime nowMs invoiceLink of None \<Rightarrow> False | Some d \<Rightarrow> d > 0)"

section \<open>Storage (\<open>storage/JsonFileStorage.ts\<close>)\<close>

text \<open>
  Of an audit entry the model keeps the action, the entity and the user. Writing the
  JSON files is not modelled: the state is the data held in memory.
\<close>

record AuditLog =
  alAction :: string
  alEntityType :: string
  alEntityId :: "string option"
  alUserId :: string

record StorageData =
  clientPolicies :: "ClientPolicy list"
  billableEvents :: "BillableEvent list"
  invoiceLinks :: "InvoiceLink list"
  auditLogs :: "AuditLog list"

text \<open>\<open>Array.prototype.findIndex\<close>, with \<open>None\<close> for \<open>-1\<close>.\<close>

fun findIndex :: "('a \<Rightarrow> bool) \<Rightarrow> 'a list \<Rightarrow> nat option" where
  "findIndex P [] = None"
| "findIndex P (x # xs) =
     (if P x then Some 0 else map_option Suc (findIndex P xs))"

definition getPolicyByClientId :: "StorageData \<Rightarrow> string \<Rightarrow> ClientPolicy option" where
  "getPolicyByClientId s clientId =
     find (\<lambda>p. policyClientId p = clientId \<and> isActive p) (clientPolicies s)"

definition getEventById :: "StorageData \<Rightarrow> string \<Rightarrow> BillableEvent option" where
  "getEventById s ident = find (\<lambda>e. evId e = ident) (billableEvents s)"

definition getEventByIdempotencyKey :: "StorageData \<Rightarrow> string \<Rightarrow> BillableEvent option" where
  "getEventByIdempotencyKey s key = find (\<lambda>e. idempotencyKey e = key) (billableEvents s)"

definition idempotencyKeyExists :: "StorageData \<Rightarrow> string \<Rightarrow> bool" where
  "idempotencyKeyExists s key = list_ex (\<lambda>e. idempotencyKey e = key) (billableEvents s)"

definition saveEvent :: "BillableEvent \<Rightarrow> StorageData \<Rightarrow> Thrown + StorageData" where
  "saveEvent event s =
     (case getEventByIdempotencyKey s (idempotencyKey event) of
        Some existing \<Rightarrow>
          Inl (PlainError (''Duplicate entry: idempotency key '' @ idempotencyKey event
                             @ '' already exists''))
      | None \<Rightarrow> Inr (s\<lparr>billableEvents := billableEvents s @ [event]\<rparr>))"

text \<open>
  \<open>updateEvent\<close> and \<open>updateInvoiceLink\<close>. Every caller passes a whole object as
  \<open>updates\<close>, so the merge \<open>{...old, ...updates, updatedAt}\<close> is \<open>updates\<close> with a new
  \<open>updatedAt\<close>.
\<close>

definition updateEvent :: "string \<Rightarrow> BillableEvent \<Rightarrow> string \<Rightarrow> StorageData \<Rightarrow> Thrown + StorageData" where
  "updateEvent ident updates now s =
     (case findIndex (\<lambda>e. evId e = ident) (billableEvents s) of
        None \<Rightarrow> Inl (PlainError (''Billable event not found: '' @ ident))
      | Some index \<Rightarrow>
          Inr (s\<lparr>billableEvents := (billableEvents s)[index := updates\<lparr>updatedAt := now\<rparr>]\<rparr>))"

definition getInvoiceLinkById :: "StorageData \<Rightarrow> string \<Rightarrow> InvoiceLink option" where
  "getInvoiceLinkById s ident = find (\<lambda>l. linkId l = ident) (invoiceLinks s)"

definition updateInvoiceLink :: "string \<Rightarrow> InvoiceLink \<Rightarrow> string \<Rightarrow> StorageData \<Rightarrow> Thrown + StorageData" where
  "updateInvoiceLink ident updates now s =
     (case findIndex (\<lambda>l. linkId l = ident) (invoiceLinks s) of
        None \<Rightarrow> Inl (PlainError (''Invoice link not found: '' @ ident))
      | Some index \<Rightarrow>
          Inr (s\<lparr>invoiceLinks := (invoiceLinks s)[index := updates\<lparr>linkUpdatedAt := now\<rparr>]\<rparr>))"

definition getOverdueInvoiceLinks :: "(string \<Rightarrow> int option) \<Rightarrow> int \<Rightarrow> StorageData \<Rightarrow> InvoiceLink list" where
  "getOverdueInvoiceLinks getTime nowMs s = filter (isOverdue getTime nowMs) (invoiceLinks s)"

definition saveAuditLog :: "AuditLog \<Rightarrow> StorageData \<Rightarrow> StorageData" where
  "saveAuditLog entry s = s\<lparr>auditLogs := auditLogs s @ [entry]\<rparr>"

section \<open>Services\<close>

record RequestContext =
  userId :: string

text \<open>
  A service call returns what it returns or throws, together with the storage it leaves
  behind: a call that throws after a write leaves the write in place.
\<close>

type_synonym 'a outcome = "(Thrown + 'a) \<times> StorageData"

subsection \<open>\<open>AuditService\<close>\<close>

definition auditLog :: "RequestContext \<Rightarrow> string \<Rightarrow> string \<Rightarrow> string \<Rightarrow> StorageData \<Rightarrow> StorageData" where
  "auditLog context action entityType entityId s =
     saveAuditLog \<lparr>alAction = action, alEntityType = entityType,
                    alEntityId = Some entityId, alUserId = userId context\<rparr> s"

subsection \<open>\<open>IdempotencyService\<close>\<close>

definition validateBeforeCreate ::
  "Env \<Rightarrow> StorageData \<Rightarrow> string \<Rightarrow> string \<Rightarrow> TriggerDate \<Rightarrow> FeeType \<Rightarrow> Thrown + string" where
  "validateBeforeCreate env s clientCode controlNumber triggerDate feeType =
     (case generateIdempotencyKey (envUpperOther env) (envNewDate env) clientCode controlNumber
             triggerDate feeType of
        Inl e \<Rightarrow> Inl e
      | Inr key \<Rightarrow>
          if idempotencyKeyExists s key then Inl (DuplicateError key) else Inr key)"

subsection \<open>\<open>BillableEventService\<close>\<close>

text \<open>The input of \<open>createEvent\<close>; \<open>ciSalary\<close> is \<open>input.sourceData?.salary\<close>.\<close>

record CreateEventInput =
  ciClientId :: string
  ciControlNumber :: string
  ciCandidateEmail :: "string option"
  ciTriggerDate :: string
  ciTriggerType :: string
  ciFeeType :: FeeType
  ciAmount :: "real option"
  ciSalary :: "real option"
  ciNotes :: "string option"

text \<open>The amount of a new event: the one supplied, or else the calculated fee.\<close>

definition eventAmount :: "ClientPolicy \<Rightarrow> CreateEventInput \<Rightarrow> Thrown + real" where
  "eventAmount policy input =
     (case ciAmount input of
        Some amount \<Rightarrow> Inr amount
      | None \<Rightarrow>
          (case calculateFee policy (ciFeeType input) (ciSalary input) of
             None \<Rightarrow>
               Inl (ValidationError ''Unable to calculate fee''
                      [(''feeType'', ''No fee rule found for '' @ feeTypeString (ciFeeType input))])
           | Some feeCalc \<Rightarrow> Inr (fcAmount feeCalc)))"

definition newEventInput ::
  "ClientPolicy \<Rightarrow> RequestContext \<Rightarrow> CreateEventInput \<Rightarrow> real \<Rightarrow> NewEventInput" where
  "newEventInput policy context input amount =
     \<lparr>neClientId = ciClientId input, neClientCode = policyClientCode policy,
      neClientName = policyClientName policy, neControlNumber = ciControlNumber input,
      neCandidateEmail = ciCandidateEmail input, neTriggerDate = ciTriggerDate input,
      neTriggerType = ciTriggerType input, neFeeType = ciFeeType input,
      neAmount = amount, neCurrency = policyCurrency policy,
      nePolicyId = policyId policy, nePolicyVersion = policyVersion policy,
      neSalary = ciSalary input, neCreatedBy = userId context, neNotes = ciNotes input\<rparr>"

definition createEvent ::
  "Env \<Rightarrow> RequestContext \<Rightarrow> CreateEventInput \<Rightarrow> string \<Rightarrow> string \<Rightarrow> StorageData
     \<Rightarrow> BillableEvent outcome" where
  "createEvent env context input now uuid s =
     (case getPolicyByClientId s (ciClientId input) of
        None \<Rightarrow>
          (Inl (ValidationError ''No active policy found for client''
                  [(''clientId'', ''No active billing policy'')]), s)
      | Some policy \<Rightarrow>
          (case validateBeforeCreate env s (policyClientCode policy) (ciControlNumber input)
                  (DateString (ciTriggerDate input)) (ciFeeType input) of
             Inl e \<Rightarrow> (Inl e, s)
           | Inr key \<Rightarrow>
               (case eventAmount policy input of
                  Inl e \<Rightarrow> (Inl e, s)
                | Inr amount \<Rightarrow>
                    (case createBillableEvent env (newEventInput policy context input amount)
                            now uuid of
                       Inl e \<Rightarrow> (Inl e, s)
                     | Inr event \<Rightarrow>
                         (case saveEvent event s of
                            Inl e \<Rightarrow> (Inl e, s)
                          | Inr s1 \<Rightarrow>
                              (Inr event,
                               auditLog context ''CREATE'' ''BILLABLE_EVENT'' (evId event) s1))))))"

definition getEventByIdOrThrow :: "StorageData \<Rightarrow> string \<Rightarrow> Thrown + BillableEvent" where
  "getEventByIdOrThrow s ident =
     (case getEventById s ident of
        None \<Rightarrow> Inl (NotFoundError ''BillableEvent'' ident)
      | Some event \<Rightarrow> Inr event)"

definition approveEvent ::
  "RequestContext \<Rightarrow> string \<Rightarrow> string option \<Rightarrow> string \<Rightarrow> StorageData \<Rightarrow> BillableEvent outcome" where
  "approveEvent context ident notes now s =
     (case getEventByIdOrThrow s ident of
        Inl e \<Rightarrow> (Inl e, s)
      | Inr event \<Rightarrow>
          if evStatus event \<noteq> PENDING \<and> evStatus event \<noteq> HOLD then
            (Inl (ValidationError ''Event cannot be approved''
                    [(''status'', ''Current status is '' @ statusString (evStatus event)
                                    @ '', expected PENDING or HOLD'')]), s)
          else
            (let updated = (updateEventStatus event APPROVED (userId context) notes now)
                             \<lparr>approvedAt := Some now, approvedBy := Some (userId context),
                              approvalNotes := notes\<rparr>
             in case updateEvent ident updated now s of
                  Inl e \<Rightarrow> (Inl e, s)
                | Inr s1 \<Rightarrow>
                    (Inr updated, auditLog context ''APPROVE'' ''BILLABLE_EVENT'' ident s1)))"

definition holdEvent ::
  "RequestContext \<Rightarrow> string \<Rightarrow> string \<Rightarrow> string \<Rightarrow> StorageData \<Rightarrow> BillableEvent outcome" where
  "holdEvent context ident reason now s =
     (case getEventByIdOrThrow s ident of
        Inl e \<Rightarrow> (Inl e, s)
      | Inr event \<Rightarrow>
          if evStatus event \<noteq> PENDING \<and> evStatus event \<noteq> APPROVED then
            (Inl (ValidationError ''Event cannot be put on hold''
                    [(''status'', ''Current status is '' @ statusString (evStatus event))]), s)
          else
            (let updated = (updateEventStatus event HOLD (userId context) (Some reason) now)
                             \<lparr>holdReason := Some reason, holdAt := Some now,
                              holdBy := Some (userId context)\<rparr>
             in case updateEvent ident updated now s of
                  Inl e \<Rightarrow> (Inl e, s)
                | Inr s1 \<Rightarrow>
                    (Inr updated, auditLog context ''HOLD'' ''BILLABLE_EVENT'' ident s1)))"

definition markAsInvoiced ::
  "RequestContext \<Rightarrow> string \<Rightarrow> string \<Rightarrow> StorageData \<Rightarrow> BillableEvent outcome" where
  "markAsInvoiced context ident now s =
     (case getEventByIdOrThrow s ident of
        Inl e \<Rightarrow> (Inl e, s)
      | Inr event \<Rightarrow>
          if evStatus event \<noteq> APPROVED then
            (Inl (ValidationError ''Only approved events can be marked as invoiced''
                    [(''status'', statusString (evStatus event))]), s)
          else
            (let updated = updateEventStatus event INVOICED (userId context)
                             (Some ''Invoice created in QuickBooks'') now
             in case updateEvent ident updated now s of
                  Inl e \<Rightarrow> (Inl e, s)
                | Inr s1 \<Rightarrow> (Inr updated, s1)))"

definition markAsPaid ::
  "RequestContext \<Rightarrow> string \<Rightarrow> string \<Rightarrow> StorageData \<Rightarrow> BillableEvent outcome" where
  "markAsPaid context ident now s =
     (case getEventByIdOrThrow s ident of
        Inl e \<Rightarrow> (Inl e, s)
      | Inr event \<Rightarrow>
          (let updated = updateEventStatus event PAID (userId context)
                           (Some ''Payment received'') now
           in case updateEvent ident updated now s of
                Inl e \<Rightarrow> (Inl e, s)
              | Inr s1 \<Rightarrow> (Inr updated, s1)))"

subsection \<open>\<open>InvoiceService\<close>\<close>

definition getInvoiceLinkByIdOrThrow :: "StorageData \<Rightarrow> string \<Rightarrow> Thrown + InvoiceLink" where
  "getInvoiceLinkByIdOrThrow s ident =
     (case getInvoiceLinkById s ident of
        None \<Rightarrow> Inl (NotFoundError ''InvoiceLink'' ident)
      | Some link \<Rightarrow> Inr link)"

text \<open>
  \<open>recordPaymentFromQb\<close>: the payment is recorded on the link and the link stored; a
  link that has become \<open>PAID\<close> marks its event as paid. If that throws, the stored link
  stays updated.
\<close>

definition recordPaymentFromQb ::
  "RequestContext \<Rightarrow> string \<Rightarrow> PaymentRecord \<Rightarrow> string \<Rightarrow> StorageData \<Rightarrow> InvoiceLink outcome" where
  "recordPaymentFromQb context invoiceLinkId payment now s =
     (case getInvoiceLinkByIdOrThrow s invoiceLinkId of
        Inl e \<Rightarrow> (Inl e, s)
      | Inr invoiceLink \<Rightarrow>
          (let paymentRecord = payment\<lparr>syncedAt := now\<rparr>;
               updated = recordPayment invoiceLink paymentRecord now
           in case updateInvoiceLink invoiceLinkId updated now s of
                Inl e \<Rightarrow> (Inl e, s)
              | Inr s1 \<Rightarrow>
                  if qbStatus updated = QB_PAID then
                    (case markAsPaid context (billableEventId updated) now s1 of
                       (Inl e, s2) \<Rightarrow> (Inl e, s2)
                     | (Inr paidEvent, s2) \<Rightarrow>
                         (Inr updated,
                          auditLog context ''PAYMENT_RECORD'' ''INVOICE_LINK'' invoiceLinkId s2))
                  else
                    (Inr updated,
                     auditLog context ''PAYMENT_RECORD'' ''INVOICE_LINK'' invoiceLinkId s1)))"

text \<open>\<open>updateStatusFromQb\<close>: the accounting system's status is written as it is.\<close>

definition updateStatusFromQb ::
  "string \<Rightarrow> QBInvoiceStatus \<Rightarrow> string \<Rightarrow> StorageData \<Rightarrow> InvoiceLink outcome" where
  "updateStatusFromQb invoiceLinkId newStatus now s =
     (case getInvoiceLinkByIdOrThrow s invoiceLinkId of
        Inl e \<Rightarrow> (Inl e, s)
      | Inr invoiceLink \<Rightarrow>
          (let updated = invoiceLink\<lparr>qbStatus := newStatus,
                             linkStatusHistory := linkStatusHistory invoiceLink @
                               [\<lparr>lsStatus = newStatus, lsTimestamp = now, lsSource = QB_SYNC\<rparr>],
                             lastSyncedAt := now, linkUpdatedAt := now\<rparr>
           in case updateInvoiceLink invoiceLinkId updated now s of
                Inl e \<Rightarrow> (Inl e, s)
              | Inr s1 \<Rightarrow> (Inr updated, s1)))"

subsection \<open>\<open>ReconciliationService.getOverdueReport\<close>\<close>

datatype AgingBucket = Days_1_30 | Days_31_60 | Days_61_90 | Days_90_plus

text \<open>
  The report's entry for a link: the days overdue, computed as in \<open>getDaysOverdue\<close>
  but without the floor at zero, and the bucket. A comparison with NaN (\<open>None\<close>) is false.
\<close>

definition reportDaysOverdue :: "(string \<Rightarrow> int option) \<Rightarrow> int \<Rightarrow> InvoiceLink \<Rightarrow> int option" where
  "reportDaysOverdue getTime nowMs link =
     (case getTime (dueDate link) of
        None \<Rightarrow> None
      | Some dueMs \<Rightarrow> Some \<lceil>real_of_int (nowMs - dueMs) / (1000 * 60 * 60 * 24)\<rceil>)"

definition numLe :: "int option \<Rightarrow> int \<Rightarrow> bool" where
  "numLe d n = (case d of None \<Rightarrow> False | Some x \<Rightarrow> x \<le> n)"

definition agingBucket :: "int option \<Rightarrow> AgingBucket" where
  "agingBucket daysOverdue =
     (if numLe daysOverdue 30 then Days_1_30
      else if numLe daysOverdue 60 then Days_31_60
      else if numLe daysOverdue 90 then Days_61_90
      else Days_90_plus)"

record OverdueEntry =
  oeId :: string
  oeBalance :: real
  oeDaysOverdue :: "int option"
  oeAgingBucket :: AgingBucket

definition getOverdueReport :: "(string \<Rightarrow> int option) \<Rightarrow> int \<Rightarrow> StorageData \<Rightarrow> OverdueEntry list" where
  "getOverdueReport getTime nowMs s =
     map (\<lambda>link. \<lparr>oeId = linkId link, oeBalance = balance link,
                  oeDaysOverdue = reportDaysOverdue getTime nowMs link,
                  oeAgingBucket = agingBucket (reportDaysOverdue getTime nowMs link)\<rparr>)
         (getOverdueInvoiceLinks getTime nowMs s)"

section \<open>Sequences of calls and example data\<close>

text \<open>A sequence of payments recorded on a link, each with the clock of its call.\<close>

definition applyPayments :: "InvoiceLink \<Rightarrow> (PaymentRecord \<times> string) list \<Rightarrow> InvoiceLink" where
  "applyPayments link ps = foldl (\<lambda>l (p, now). recordPayment l p now) link ps"

definition examplePayment :: "real \<Rightarrow> string \<Rightarrow> PaymentRecord" where
  "examplePayment a day =
     \<lparr>qbPaymentId = ''qb-pay'', paymentDate = day, payAmount = a, payCurrency = EUR,
      syncedAt = ''''\<rparr>"

definition exampleLink :: InvoiceLink where
  "exampleLink =
     \<lparr>linkId = ''link-1'', billableEventId = ''event-1'',
      linkIdempotencyKey = ''ACME-PL1-20231215-PLACEMENT_FEE'',
      qbInvoiceId = ''QB-INV-1'', qbDocNumber = ''INV-000001'',
      invoiceDate = ''2023-12-16'', dueDate = ''2024-01-15'',
      linkAmount = 1000, linkCurrency = EUR, qbStatus = QB_PENDING,
      linkStatusHistory = [\<lparr>lsStatus = QB_PENDING, lsTimestamp = ''2023-12-16T09:00:00.000Z'',
                             lsSource = PORTAL\<rparr>],
      totalPaid = 0, balance = 1000, payments = [], paidInFullDate = None,
      lastSyncedAt = ''2023-12-16T09:00:00.000Z'',
      linkUpdatedAt = ''2023-12-16T09:00:00.000Z''\<rparr>"

definition exampleEvent :: BillableEvent where
  "exampleEvent =
     \<lparr>evId = ''event-1'', idempotencyKey = ''ACME-PL1-20231215-PLACEMENT_FEE'',
      evClientId = ''client-1'', evClientCode = ''acme'', evClientName = ''Acme Crewing'',
      evControlNumber = ''PL1'', evCandidateEmail = None,
      evTriggerDate = ''2023-12-15'', evTriggerType = ''ON_PLACEMENT'',
      evFeeType = PLACEMENT_FEE, evAmount = 1000, evCurrency = EUR, evStatus = INVOICED,
      statusHistory = [\<lparr>seStatus = INVOICED, seTimestamp = ''2023-12-16T09:00:00.000Z'',
                         seUserId = ''user-1'', seReason = None\<rparr>],
      evPolicyId = ''policy-1'', evPolicyVersion = 1, evSalary = None,
      approvedAt = None, approvedBy = None, approvalNotes = None,
      holdReason = None, holdAt = None, holdBy = None, evNotes = None,
      createdAt = ''2023-12-15T09:00:00.000Z'', createdBy = ''user-1'',
      updatedAt = ''2023-12-16T09:00:00.000Z'', updatedBy = ''user-1''\<rparr>"

definition exampleStore :: StorageData where
  "exampleStore =
     \<lparr>clientPolicies = [examplePolicy], billableEvents = [exampleEvent],
      invoiceLinks = [exampleLink], auditLogs = []\<rparr>"

definition exampleContext :: RequestContext where
  "exampleContext = \<lparr>userId = ''user-2''\<rparr>"

text \<open>
  An example of \<open>new Date(s).getTime()\<close>: the due date of the example link at midnight
  UTC. The example clock is 45 days later.
\<close>

definition exampleGetTime :: "string \<Rightarrow> int option" where
  "exampleGetTime s = (if s = ''2024-01-15'' then Some 1705276800000 else None)"

definition exampleNowMs :: int where
  "exampleNowMs = 1705276800000 + 45 * (1000 * 60 * 60 * 24)"

text \<open>The example link after the accounting system's sync has reported it as paid.\<close>

definition syncedPaidLink :: InvoiceLink where
  "syncedPaidLink =
     exampleLink\<lparr>qbStatus := QB_PAID,
                  linkStatusHistory := linkStatusHistory exampleLink @
                    [\<lparr>lsStatus = QB_PAID, lsTimestamp = ''2024-01-20T08:00:00.000Z'',
                      lsSource = QB_SYNC\<rparr>],
                  lastSyncedAt := ''2024-01-20T08:00:00.000Z'',
                  linkUpdatedAt := ''2024-01-20T08:00:00.000Z''\<rparr>"

section \<open>Concurrent calls of \<open>createEvent\<close>\<close>

text \<open>
  \<open>createEvent\<close> is an async function: between two of its \<open>await\<close>s it runs without
  interruption, and at an \<open>await\<close> another call can run. Of its uninterrupted pieces,
  three touch the stored events: the one in which \<open>storage.idempotencyKeyExists\<close> reads
  them (\<open>validateBeforeCreate\<close>; the policy lookup before it reads only the policies and
  is put into the same step); the one in which \<open>saveEvent\<close>, just called, reads them
  with \<open>getEventByIdempotencyKey\<close> (the fee calculation and \<open>createBillableEvent\<close>
  run in it, before the call); and the one after that read's \<open>await\<close>, in which
  \<open>saveEvent\<close> throws or pushes the event (the audit entry, written later, is put into
  the same step). A task records how far a call has come.
\<close>

datatype CreateTask =
    Started
  | Validated ClientPolicy string
  | Saving BillableEvent "BillableEvent option"
  | Finished "Thrown + BillableEvent"

definition stepCreate ::
  "Env \<Rightarrow> RequestContext \<Rightarrow> CreateEventInput \<Rightarrow> string \<Rightarrow> string \<Rightarrow> CreateTask \<Rightarrow> StorageData
     \<Rightarrow> CreateTask \<times> StorageData" where
  "stepCreate env context input now uuid task s =
     (case task of
        Started \<Rightarrow>
          (case getPolicyByClientId s (ciClientId input) of
             None \<Rightarrow>
               (Finished (Inl (ValidationError ''No active policy found for client''
                                 [(''clientId'', ''No active billing policy'')])), s)
           | Some policy \<Rightarrow>
               (case validateBeforeCreate env s (policyClientCode policy)
                       (ciControlNumber input) (DateString (ciTriggerDate input))
                       (ciFeeType input) of
                  Inl e \<Rightarrow> (Finished (Inl e), s)
                | Inr key \<Rightarrow> (Validated policy key, s)))
      | Validated policy key \<Rightarrow>
          (case eventAmount policy input of
             Inl e \<Rightarrow> (Finished (Inl e), s)
           | Inr amount \<Rightarrow>
               (case createBillableEvent env (newEventInput policy context input amount)
                       now uuid of
                  Inl e \<Rightarrow> (Finished (Inl e), s)
                | Inr event \<Rightarrow>
                    (Saving event (getEventByIdempotencyKey s (idempotencyKey event)), s)))
      | Saving event existing \<Rightarrow>
          (case existing of
             Some found \<Rightarrow>
               (Finished (Inl (PlainError (''Duplicate entry: idempotency key ''
                                            @ idempotencyKey event @ '' already exists''))), s)
           | None \<Rightarrow>
               (Finished (Inr event),
                auditLog context ''CREATE'' ''BILLABLE_EVENT'' (evId event)
                  (s\<lparr>billableEvents := billableEvents s @ [event]\<rparr>)))
      | Finished r \<Rightarrow> (Finished r, s))"

text \<open>A call that runs alone takes its three steps one after the other.\<close>

definition runCreateAlone ::
  "Env \<Rightarrow> RequestContext \<Rightarrow> CreateEventInput \<Rightarrow> string \<Rightarrow> string \<Rightarrow> StorageData
     \<Rightarrow> CreateTask \<times> StorageData" where
  "runCreateAlone env context input now uuid s =
     (case stepCreate env context input now uuid Started s of
        (t1, s1) \<Rightarrow>
          (case stepCreate env context input now uuid t1 s1 of
             (t2, s2) \<Rightarrow> stepCreate env context input now uuid t2 s2))"

text \<open>Two calls whose steps are interleaved as a schedule says.\<close>

datatype Turn = TaskA | TaskB

fun runSchedule ::
  "(CreateTask \<Rightarrow> StorageData \<Rightarrow> CreateTask \<times> StorageData)
     \<Rightarrow> (CreateTask \<Rightarrow> StorageData \<Rightarrow> CreateTask \<times> StorageData)
     \<Rightarrow> Turn list \<Rightarrow> CreateTask \<times> CreateTask \<times> StorageData
     \<Rightarrow> CreateTask \<times> CreateTask \<times> StorageData" where
  "runSchedule stepA stepB [] st = st"
| "runSchedule stepA stepB (TaskA # turns) (a, b, s) =
     (case stepA a s of (a', s') \<Rightarrow> runSchedule stepA stepB turns (a', b, s'))"
| "runSchedule stepA stepB (TaskB # turns) (a, b, s) =
     (case stepB b s of (b', s') \<Rightarrow> runSchedule stepA stepB turns (a, b', s'))"

text \<open>Example calls.\<close>

definition exampleIsEmail :: "string \<Rightarrow> bool" where
  "exampleIsEmail s = (CHR ''@'' \<in> set s)"

definition exampleEnv :: Env where
  "exampleEnv = \<lparr>envUpperOther = exampleUpperOther, envNewDate = exampleNewDate,
                  envIsEmail = exampleIsEmail\<rparr>"

definition exampleInput :: CreateEventInput where
  "exampleInput =
     \<lparr>ciClientId = ''client-1'', ciControlNumber = ''PL2'', ciCandidateEmail = None,
      ciTriggerDate = ''2023-12-15'', ciTriggerType = ''ON_PLACEMENT'',
      ciFeeType = PLACEMENT_FEE, ciAmount = Some 750, ciSalary = None, ciNotes = None\<rparr>"

text \<open>The event that \<open>createEvent\<close> makes of the example input.\<close>

definition createdEvent :: "string \<Rightarrow> string \<Rightarrow> BillableEvent" where
  "createdEvent now uuid =
     \<lparr>evId = uuid, idempotencyKey = ''ACME-PL2-20231215-PLACEMENT_FEE'',
      evClientId = ''client-1'', evClientCode = ''acme'', evClientName = ''Acme Crewing'',
      evControlNumber = ''PL2'', evCandidateEmail = None,
      evTriggerDate = ''2023-12-15'', evTriggerType = ''ON_PLACEMENT'',
      evFeeType = PLACEMENT_FEE, evAmount = 750, evCurrency = EUR, evStatus = PENDING,
      statusHistory = [\<lparr>seStatus = PENDING, seTimestamp = now, seUserId = ''user-2'',
                         seReason = Some ''Created from Smartsheet data''\<rparr>],
      evPolicyId = ''policy-1'', evPolicyVersion = 1, evSalary = None,
      approvedAt = None, approvedBy = None, approvalNotes = None,
      holdReason = None, holdAt = None, holdBy = None, evNotes = None,
      createdAt = now, createdBy = ''user-2'', updatedAt = now, updatedBy = ''user-2''\<rparr>"

definition createAudit :: "string \<Rightarrow> AuditLog" where
  "createAudit uuid =
     \<lparr>alAction = ''CREATE'', alEntityType = ''BILLABLE_EVENT'', alEntityId = Some uuid,
      alUserId = ''user-2''\<rparr>"

section \<open>Properties of the key codec\<close>

subsection \<open>Characters\<close>













subsection \<open>Rendering numbers and dates\<close>






subsection \<open>The matcher finds exactly the decompositions of the pattern\<close>











lemma parseIdempotencyKey_None_iff:
  "parseIdempotencyKey key = None \<longleftrightarrow> matchKey key = []"
  by (auto simp: parseIdempotencyKey_def split: list.splits)


subsection \<open>Generating a key and parsing it back\<close>






lemmas string_eval =
  toUpperCase_def toUpperChar_def isAscii_def exampleUpperOther_def isLowerAZ_def isUpperAZ_def
  isDigit_def isHyphen_def isUnderscore_def isControlChar_def isClientCodeChar_def
  isFeeTypeChar_def char_of_eq_iff slice_def

text \<open>The renderings of the example dates, piece by piece.\<close>

lemma addLeadingZeros_2023: "addLeadingZeros 2023 4 = ''2023''"
  by (simp add: addLeadingZeros_def showNat.simps digitChar_def char_of_eq_iff)

lemma addLeadingZeros_10000: "addLeadingZeros 10000 4 = ''10000''"
  by (simp add: addLeadingZeros_def showNat.simps digitChar_def char_of_eq_iff)

lemma addLeadingZeros_12: "addLeadingZeros 12 2 = ''12''"
  by (simp add: addLeadingZeros_def showNat.simps digitChar_def char_of_eq_iff)

lemma addLeadingZeros_14: "addLeadingZeros 14 2 = ''14''"
  by (simp add: addLeadingZeros_def showNat.simps digitChar_def char_of_eq_iff)

lemma addLeadingZeros_15: "addLeadingZeros 15 2 = ''15''"
  by (simp add: addLeadingZeros_def showNat.simps digitChar_def char_of_eq_iff)

lemma format_example_date:
  "format_yyyyMMdd \<lparr>fullYear = 2023, monthOfYear = 12, dayOfMonth = 15\<rparr> = ''20231215''"
  by (simp add: format_yyyyMMdd_def Let_def addLeadingZeros_2023 addLeadingZeros_12
        addLeadingZeros_15)

lemma format_example_day_before:
  "format_yyyyMMdd \<lparr>fullYear = 2023, monthOfYear = 12, dayOfMonth = 14\<rparr> = ''20231214''"
  by (simp add: format_yyyyMMdd_def Let_def addLeadingZeros_2023 addLeadingZeros_12
        addLeadingZeros_14)

lemma format_example_late_date:
  "format_yyyyMMdd \<lparr>fullYear = 10000, monthOfYear = 12, dayOfMonth = 15\<rparr> = ''100001215''"
  by (simp add: format_yyyyMMdd_def Let_def addLeadingZeros_10000 addLeadingZeros_12
        addLeadingZeros_15)

lemma isoDate_example_date:
  "isoDate \<lparr>fullYear = 2023, monthOfYear = 12, dayOfMonth = 15\<rparr> = ''2023-12-15''"
  by (simp add: isoDate_def renderedYear_def addLeadingZeros_2023 addLeadingZeros_12
        addLeadingZeros_15)

lemmas date_eval =
  format_example_date format_example_day_before format_example_late_date isoDate_example_date
  renderedYear_def validCalendarDate_def exampleNewDate_def westernNewDate_def

lemmas match_eval =
  parseIdempotencyKey_def matchKey_def classTimes_def literalChar_def endOfInput_def



section \<open>Rounding to a double\<close>

text \<open>
  \<open>roundHalfEven\<close> gives an integer nearest to its argument, and \<open>roundToDouble\<close> a
  double nearest to its argument: no other double is closer. So rounding keeps the order
  between a number and a double.
\<close>

lemma roundHalfEven_cases: "roundHalfEven y = \<lfloor>y\<rfloor> \<or> roundHalfEven y = \<lfloor>y\<rfloor> + 1"
  by (simp add: roundHalfEven_def Let_def)

lemma roundHalfEven_half: "\<bar>y - of_int (roundHalfEven y)\<bar> \<le> 1 / 2"
proof -
  define f where "f = \<lfloor>y\<rfloor>"
  have b: "of_int f \<le> y" "y < of_int f + 1" unfolding f_def by linarith+
  have "roundHalfEven y =
      (if y - of_int f < 1 / 2 then f else if 1 / 2 < y - of_int f then f + 1
       else if even f then f else f + 1)"
    by (simp add: roundHalfEven_def Let_def f_def)
  then show ?thesis using b by (auto simp add: abs_if split: if_splits)
qed

lemma roundHalfEven_nearest: "\<bar>y - of_int (roundHalfEven y)\<bar> \<le> \<bar>y - of_int k\<bar>"
proof (cases "k = roundHalfEven y")
  case True
  then show ?thesis by simp
next
  case False
  then have "1 \<le> \<bar>roundHalfEven y - k\<bar>" by linarith
  then have "(1::real) \<le> \<bar>of_int (roundHalfEven y) - of_int k\<bar>"
    by (metis of_int_1 of_int_abs of_int_diff of_int_le_iff)
  with roundHalfEven_half [of y] show ?thesis by linarith
qed

lemma roundHalfEven_of_int: "roundHalfEven (of_int k) = k"
  by (simp add: roundHalfEven_def Let_def)

lemma roundHalfEven_le: "y \<le> of_int b \<Longrightarrow> roundHalfEven y \<le> b"
proof (cases "y = of_int b")
  case True
  then show ?thesis by (simp add: roundHalfEven_of_int)
next
  case False
  assume "y \<le> of_int b"
  with False have "y < of_int b" by simp
  then have "\<lfloor>y\<rfloor> < b" by linarith
  with roundHalfEven_cases [of y] show ?thesis by linarith
qed

lemma roundHalfEven_ge: "of_int a \<le> y \<Longrightarrow> a \<le> roundHalfEven y"
proof -
  assume "of_int a \<le> y"
  then have "a \<le> \<lfloor>y\<rfloor>" by linarith
  with roundHalfEven_cases [of y] show ?thesis by linarith
qed

lemma roundHalfEven_abs_le: "\<bar>y\<bar> \<le> of_int b \<Longrightarrow> \<bar>roundHalfEven y\<bar> \<le> b"
proof -
  assume a: "\<bar>y\<bar> \<le> of_int b"
  then have "y \<le> of_int b" "of_int (- b) \<le> y" by auto
  then have "roundHalfEven y \<le> b" "- b \<le> roundHalfEven y"
    using roundHalfEven_le roundHalfEven_ge by blast+
  then show ?thesis by linarith
qed

lemma binade_bounds:
  assumes "x \<noteq> 0"
  shows "2 powr of_int (binadeExponent x) \<le> \<bar>x\<bar>"
    and "\<bar>x\<bar> < 2 powr of_int (binadeExponent x + 1)"
proof -
  have "0 < \<bar>x\<bar>" using assms by simp
  from floor_log_eq_powr_iff [OF this, of 2 "binadeExponent x"]
  have "2 powr of_int (binadeExponent x) \<le> \<bar>x\<bar> \<and>
        \<bar>x\<bar> < 2 powr (of_int (binadeExponent x) + 1)"
    by (simp add: binadeExponent_def)
  then show "2 powr of_int (binadeExponent x) \<le> \<bar>x\<bar>"
    and "\<bar>x\<bar> < 2 powr of_int (binadeExponent x + 1)" by simp_all
qed

lemma powr_int_add: "(2::real) powr of_int (a + b) = 2 powr of_int a * 2 powr of_int b"
  by (simp add: powr_add)

lemma powr_int_mono: "a \<le> b \<Longrightarrow> (2::real) powr of_int a \<le> 2 powr of_int b"
  by simp

lemma powr_int_53: "(2::real) powr of_int (e + 53) = 2 ^ 53 * 2 powr of_int e"
  by (simp add: powr_add)

lemma powr_int_52: "(2::real) powr of_int (e + 52) = 2 ^ 52 * 2 powr of_int e"
  by (simp add: powr_add)

lemma ulp_upper:
  assumes "x \<noteq> 0"
  shows "\<bar>x\<bar> < 2 ^ 53 * 2 powr of_int (ulpExponent x)"
proof -
  have "binadeExponent x + 1 \<le> ulpExponent x + 53" by (simp add: ulpExponent_def)
  then have "(2::real) powr of_int (binadeExponent x + 1) \<le> 2 powr of_int (ulpExponent x + 53)"
    by (rule powr_int_mono)
  with binade_bounds(2) [OF assms] show ?thesis by (simp only: powr_int_53)
qed

lemma ulp_lower:
  assumes "x \<noteq> 0" and "ulpExponent x \<noteq> - 1074"
  shows "2 ^ 52 * 2 powr of_int (ulpExponent x) \<le> \<bar>x\<bar>"
proof -
  from assms(2) have "binadeExponent x = ulpExponent x + 52"
    by (simp add: ulpExponent_def max_def split: if_splits)
  with binade_bounds(1) [OF assms(1)] show ?thesis by (simp only: powr_int_52)
qed

lemma ulp_ge: "- 1074 \<le> ulpExponent x"
  by (simp add: ulpExponent_def)

lemma grid_distance:
  fixes g x :: real
  assumes "0 < g"
  shows "\<bar>x - of_int k * g\<bar> = g * \<bar>x / g - of_int k\<bar>"
proof -
  have "g * (x / g) = x" using assms by simp
  then have "x - of_int k * g = g * (x / g - of_int k)" by (simp add: right_diff_distrib mult.commute)
  then show ?thesis using assms by (simp add: abs_mult)
qed

lemma grid_nearest:
  fixes g x :: real
  assumes "0 < g"
  shows "\<bar>x - of_int (roundHalfEven (x / g)) * g\<bar> \<le> \<bar>x - of_int k * g\<bar>"
  using assms roundHalfEven_nearest [of "x / g" k]
  by (simp add: grid_distance)

text \<open>
  The result of rounding is \<open>m * 2 ^ e\<close> for integers \<open>m\<close> and \<open>e\<close> with
  \<open>\<bar>m\<bar> < 2 ^ 53\<close> and \<open>e \<ge> -1074\<close>, and no number of this form is closer to the
  rounded value.
\<close>

lemma roundToDouble_representable:
  "\<exists>m e. \<bar>m\<bar> < 2 ^ 53 \<and> - 1074 \<le> e \<and> roundToDouble x = of_int m * 2 powr of_int e"
proof (cases "x = 0")
  case True
  have "\<bar>0 :: int\<bar> < 2 ^ 53 \<and> - 1074 \<le> (0 :: int) \<and>
        roundToDouble x = of_int 0 * 2 powr of_int 0"
    using True by (simp add: roundToDouble_def)
  then show ?thesis by blast
next
  case False
  define e where "e = ulpExponent x"
  define g :: real where "g = 2 powr of_int e"
  define r where "r = roundHalfEven (x / g)"
  have g: "0 < g" by (simp add: g_def)
  have fl: "roundToDouble x = of_int r * g"
    using False by (simp add: roundToDouble_def r_def g_def e_def)
  have "\<bar>x\<bar> < 2 ^ 53 * g" using ulp_upper [OF False] by (simp add: g_def e_def)
  then have "\<bar>x / g\<bar> < 2 ^ 53" using g by (simp add: field_simps)
  then have "\<bar>x / g\<bar> \<le> of_int (2 ^ 53)" by simp
  then have r: "\<bar>r\<bar> \<le> 2 ^ 53" unfolding r_def by (rule roundHalfEven_abs_le)
  have e: "- 1074 \<le> e" by (simp add: e_def ulp_ge)
  show ?thesis
  proof (cases "\<bar>r\<bar> < 2 ^ 53")
    case True
    with e fl show ?thesis unfolding g_def by blast
  next
    case False
    with r have "\<bar>r\<bar> = 2 ^ 53" by simp
    then have "r = 2 ^ 53 \<or> r = - (2 ^ 53)" by linarith
    then have "r = 2 * (r div 2)" "\<bar>r div 2\<bar> < 2 ^ 53" by auto
    moreover have "of_int (2 * (r div 2)) * g = of_int (r div 2) * 2 powr of_int (e + 1)"
      by (simp add: g_def powr_add)
    ultimately have "\<bar>r div 2\<bar> < 2 ^ 53 \<and> - 1074 \<le> e + 1 \<and>
        roundToDouble x = of_int (r div 2) * 2 powr of_int (e + 1)"
      using e fl by simp
    then show ?thesis by blast
  qed
qed

lemma roundToDouble_nearest_representable:
  assumes m: "\<bar>m\<bar> < 2 ^ 53" and e': "- 1074 \<le> e'"
  shows "\<bar>x - roundToDouble x\<bar> \<le> \<bar>x - of_int m * 2 powr of_int e'\<bar>"
proof (cases "x = 0")
  case True
  then show ?thesis by (simp add: roundToDouble_def)
next
  case False
  define d :: real where "d = of_int m * 2 powr of_int e'"
  have d: "d = of_int m * 2 powr of_int e'" by (rule d_def)
  have "\<bar>x - roundToDouble x\<bar> \<le> \<bar>x - d\<bar>"
  proof -
    define e where "e = ulpExponent x"
    define g :: real where "g = 2 powr of_int e"
    have g: "0 < g" by (simp add: g_def)
    have fl: "roundToDouble x = of_int (roundHalfEven (x / g)) * g"
      using False by (simp add: roundToDouble_def g_def e_def)
    show ?thesis
    proof (cases "e \<le> e'")
      case True
      then have "e' = e + int (nat (e' - e))" by simp
      then have "(2::real) powr of_int e' = 2 powr of_int (e + int (nat (e' - e)))" by simp
      also have "\<dots> = g * 2 ^ nat (e' - e)"
        by (simp only: powr_int_add g_def of_int_of_nat_eq powr_realpow [of 2, simplified])
      finally have "d = of_int (m * 2 ^ nat (e' - e)) * g" using d by simp
      then show ?thesis using grid_nearest [OF g, of x "m * 2 ^ nat (e' - e)"] fl by simp
    next
      case False
      then have lt: "e' + 1 \<le> e" by simp
      with e' have "e \<noteq> - 1074" by simp
      with ulp_lower [OF \<open>x \<noteq> 0\<close>] have low: "2 ^ 52 * g \<le> \<bar>x\<bar>" by (simp add: e_def g_def)
      have "(2::real) powr of_int (e' + 1) \<le> g" unfolding g_def using lt by (rule powr_int_mono)
      then have "2 * 2 powr of_int e' \<le> g" by (simp add: powr_add)
      moreover have "\<bar>d\<bar> = of_int \<bar>m\<bar> * 2 powr of_int e'" by (simp add: d abs_mult)
      moreover have "(of_int \<bar>m\<bar> :: real) < 2 ^ 53"
        using m by (metis of_int_less_iff of_int_numeral of_int_power)
      ultimately have "\<bar>d\<bar> < 2 ^ 53 * 2 powr of_int e'"
        by (simp add: mult_strict_right_mono)
      with \<open>2 * 2 powr of_int e' \<le> g\<close> have dlt: "\<bar>d\<bar> < 2 ^ 52 * g" by simp
      show ?thesis
      proof (cases "0 < x")
        case True
        have "\<bar>x - of_int (roundHalfEven (x / g)) * g\<bar> \<le> \<bar>x - of_int (2 ^ 52) * g\<bar>"
          by (rule grid_nearest [OF g])
        also have "\<dots> = x - 2 ^ 52 * g" using low True by simp
        also have "\<dots> \<le> \<bar>x - d\<bar>" using dlt by linarith
        finally show ?thesis by (simp add: fl)
      next
        case False
        with \<open>x \<noteq> 0\<close> have neg: "x < 0" by simp
        have "\<bar>x - of_int (roundHalfEven (x / g)) * g\<bar> \<le> \<bar>x - of_int (- (2 ^ 52)) * g\<bar>"
          by (rule grid_nearest [OF g])
        also have "\<dots> = - x - 2 ^ 52 * g" using low neg by simp
        also have "\<dots> \<le> \<bar>x - d\<bar>" using dlt by linarith
        finally show ?thesis by (simp add: fl)
      qed
    qed
  qed
  then show ?thesis by (simp only: d)
qed

text \<open>So the doubles, the numbers that rounding leaves as they are, are the numbers of this form.\<close>

lemma isDouble_iff:
  "isDouble x \<longleftrightarrow> (\<exists>m e. \<bar>m\<bar> < 2 ^ 53 \<and> - 1074 \<le> e \<and> x = of_int m * 2 powr of_int e)"
proof
  assume "isDouble x"
  then have "roundToDouble x = x" by (simp add: isDouble_def)
  with roundToDouble_representable [of x]
  show "\<exists>m e. \<bar>m\<bar> < 2 ^ 53 \<and> - 1074 \<le> e \<and> x = of_int m * 2 powr of_int e" by simp
next
  assume "\<exists>m e. \<bar>m\<bar> < 2 ^ 53 \<and> - 1074 \<le> e \<and> x = of_int m * 2 powr of_int e"
  then obtain m e where "\<bar>m\<bar> < 2 ^ 53" "- 1074 \<le> e" and x: "x = of_int m * 2 powr of_int e"
    by blast
  from roundToDouble_nearest_representable [OF this(1,2), of x]
  have "roundToDouble x = x" by (simp add: x)
  then show "isDouble x" by (simp add: isDouble_def)
qed

lemma isDouble_0: "isDouble 0"
  by (simp add: isDouble_def roundToDouble_def)

lemma roundToDouble_isDouble: "isDouble (roundToDouble x)"
  using roundToDouble_representable [of x] by (simp add: isDouble_iff)

lemma roundToDouble_nearest:
  assumes "isDouble d"
  shows "\<bar>x - roundToDouble x\<bar> \<le> \<bar>x - d\<bar>"
proof -
  from assms obtain m e where "\<bar>m\<bar> < 2 ^ 53" "- 1074 \<le> e" and d: "d = of_int m * 2 powr of_int e"
    unfolding isDouble_iff by blast
  from roundToDouble_nearest_representable [OF this(1,2), of x]
  show ?thesis by (simp only: d)
qed

lemma roundToDouble_id: "isDouble d \<Longrightarrow> roundToDouble d = d"
  by (simp add: isDouble_def)

lemma roundToDouble_ge: "isDouble a \<Longrightarrow> a \<le> y \<Longrightarrow> a \<le> roundToDouble y"
  using roundToDouble_nearest [of a y] by linarith

lemma roundToDouble_le: "isDouble a \<Longrightarrow> y \<le> a \<Longrightarrow> roundToDouble y \<le> a"
  using roundToDouble_nearest [of a y] by linarith

lemma isDouble_of_int: "\<bar>k\<bar> < 2 ^ 53 \<Longrightarrow> isDouble (of_int k)"
  unfolding isDouble_iff by (rule exI [of _ k], rule exI [of _ 0]) simp

lemma roundToDouble_of_int: "\<bar>k\<bar> < 2 ^ 53 \<Longrightarrow> roundToDouble (of_int k) = of_int k"
  by (simp add: roundToDouble_id isDouble_of_int)

lemma roundToDouble_eval:
  assumes "2 powr of_int E \<le> \<bar>x\<bar>" and "\<bar>x\<bar> < 2 powr of_int (E + 1)" and "- 1022 \<le> E"
  shows "roundToDouble x =
           of_int (roundHalfEven (x / 2 powr of_int (E - 52))) * 2 powr of_int (E - 52)"
proof -
  have "0 < \<bar>x\<bar>" using assms(1) powr_gt_zero [of 2 "of_int E"] by linarith
  then have x: "x \<noteq> 0" by simp
  from floor_log_eq_powr_iff [OF \<open>0 < \<bar>x\<bar>\<close>, of 2 E] assms(1,2)
  have "binadeExponent x = E" by (simp add: binadeExponent_def)
  with assms(3) have "ulpExponent x = E - 52" by (simp add: ulpExponent_def)
  with x show ?thesis by (simp add: roundToDouble_def)
qed

text \<open>Whole numbers below \<open>2 ^ 53\<close> are doubles, so arithmetic that stays on them is exact.\<close>

lemma roundToDouble_0: "roundToDouble 0 = 0"
  by (simp add: roundToDouble_def)

lemma roundToDouble_1: "roundToDouble 1 = 1"
  using roundToDouble_of_int [of 1] by simp

lemma roundToDouble_numeral:
  "(numeral n :: int) < 2 ^ 53 \<Longrightarrow> roundToDouble (numeral n) = numeral n"
  using roundToDouble_of_int [of "numeral n"] by simp

lemma roundToDouble_neg_numeral:
  "(numeral n :: int) < 2 ^ 53 \<Longrightarrow> roundToDouble (- numeral n) = - numeral n"
  using roundToDouble_of_int [of "- numeral n"] by simp

lemmas number_eval =
  jsAdd_def jsSub_def jsMul_def jsDiv_def mathRound_def
  roundToDouble_0 roundToDouble_1 roundToDouble_numeral roundToDouble_neg_numeral

lemma isDouble_numeral: "(numeral n :: int) < 2 ^ 53 \<Longrightarrow> isDouble (numeral n)"
  using isDouble_of_int [of "numeral n"] by simp

text \<open>
  The sum of a double and a number that is not negative is not below the double, also
  after rounding.
\<close>

lemma jsAdd_isDouble: "isDouble (jsAdd x y)"
  by (simp add: jsAdd_def roundToDouble_isDouble)

lemma jsAdd_nonnegative: "isDouble x \<Longrightarrow> 0 \<le> y \<Longrightarrow> x \<le> jsAdd x y"
  unfolding jsAdd_def by (rule roundToDouble_ge) simp_all

text \<open>
  Decimal fractions are not doubles, and arithmetic on them is rounded: the number
  written \<open>0.1\<close> is the double \<open>3602879701896397 / 2 ^ 55\<close>, and \<open>0.1 + 0.2\<close> is the
  double written \<open>0.30000000000000004\<close>, above the double written \<open>0.3\<close>.
\<close>

lemma double_one_tenth: "roundToDouble (1 / 10) = 3602879701896397 / 2 ^ 55"
  using roundToDouble_eval [of "- 4" "1 / 10"]
  by (simp add: roundHalfEven_def Let_def powr_neg_numeral)

lemma double_two_tenths: "roundToDouble (2 / 10) = 3602879701896397 / 2 ^ 54"
  using roundToDouble_eval [of "- 3" "2 / 10"]
  by (simp add: roundHalfEven_def Let_def powr_neg_numeral)

lemma double_three_tenths: "roundToDouble (3 / 10) = 5404319552844595 / 2 ^ 54"
  using roundToDouble_eval [of "- 2" "3 / 10"]
  by (simp add: roundHalfEven_def Let_def powr_neg_numeral)

lemma double_seven_tenths: "roundToDouble (7 / 10) = 3152519739159347 / 2 ^ 52"
  using roundToDouble_eval [of "- 1" "7 / 10"]
  by (simp add: roundHalfEven_def Let_def powr_neg_numeral)

lemma jsAdd_tenths:
  "jsAdd (roundToDouble (1 / 10)) (roundToDouble (2 / 10)) = 5404319552844596 / 2 ^ 54"
  "roundToDouble (3 / 10) < jsAdd (roundToDouble (1 / 10)) (roundToDouble (2 / 10))"
  unfolding jsAdd_def double_one_tenth double_two_tenths double_three_tenths
  using roundToDouble_eval [of "- 2" "3602879701896397 / 2 ^ 55 + 3602879701896397 / 2 ^ 54"]
  by (simp_all add: roundHalfEven_def Let_def powr_neg_numeral)

lemma jsAdd_seven_three_tenths:
  "jsAdd (roundToDouble (7 / 10)) (roundToDouble (3 / 10)) = 1"
  unfolding jsAdd_def double_seven_tenths double_three_tenths
  using roundToDouble_eval [of "- 1" "3152519739159347 / 2 ^ 52 + 5404319552844595 / 2 ^ 54"]
  by (simp add: roundHalfEven_def Let_def powr_neg_numeral)

section \<open>Fee calculation\<close>

lemma calculateFee_no_rule:
  "find (\<lambda>r. ruleFeeType r = feeType) (feeRules policy) = None
     \<Longrightarrow> calculateFee policy feeType baseAmount = None"
  by (simp add: calculateFee_def)

text \<open>The caps and the rounding, applied to the amount of the selected case.\<close>

lemma caps_clampLowThenHigh:
  "(case mx of None \<Rightarrow> (case mn of None \<Rightarrow> x | Some lo \<Rightarrow> max x lo)
             | Some hi \<Rightarrow> min (case mn of None \<Rightarrow> x | Some lo \<Rightarrow> max x lo) hi)
     = clampLowThenHigh mn mx x"
  by (auto simp: clampLowThenHigh_def Let_def max_def min_def split: option.splits)

lemma calculateFee_fixed:
  assumes "find (\<lambda>r. ruleFeeType r = feeType) (feeRules policy) = Some feeRule"
      and "calculationType feeRule = FIXED"
  shows "calculateFee policy feeType baseAmount =
           Some \<lparr>fcAmount =
                    jsDiv (mathRound (jsMul
                      (clampLowThenHigh (minimumFee feeRule) (maximumFee feeRule)
                         (ruleValue feeRule)) 100)) 100,
                  fcCurrency = policyCurrency policy\<rparr>"
  using assms
  by (simp add: calculateFee_def Let_def caps_clampLowThenHigh)

lemma calculateFee_percentage:
  assumes "find (\<lambda>r. ruleFeeType r = feeType) (feeRules policy) = Some feeRule"
      and "calculationType feeRule = PERCENTAGE"
  shows "calculateFee policy feeType (Some b) =
           Some \<lparr>fcAmount =
                    jsDiv (mathRound (jsMul
                      (clampLowThenHigh (minimumFee feeRule) (maximumFee feeRule)
                         (jsDiv (jsMul b (ruleValue feeRule)) 100)) 100)) 100,
                  fcCurrency = policyCurrency policy\<rparr>"
  using assms
  by (simp add: calculateFee_def Let_def caps_clampLowThenHigh)




lemmas fee_eval =
  examplePolicy_def percentageRule_def fixedRule_def tieredRule_def lowTier_def highTier_def


text \<open>
  The arithmetic is that of doubles, not of decimal fractions. Fifteen per cent of 855.5
  is 128.325; the code computes the double just below it and returns 128.32. The number
  written 2.675 is the double just below 2.675; times 100 it is rounded to the double
  267.5, and a \<open>FIXED\<close> rule of that value returns 2.68.
\<close>

lemma calculateFee_binary_rounding:
  assumes "find (\<lambda>r. ruleFeeType r = feeType) (feeRules policy) = Some feeRule"
      and "minimumFee feeRule = None" and "maximumFee feeRule = None"
  shows "calculationType feeRule = PERCENTAGE \<and> ruleValue feeRule = 15 \<longrightarrow>
           calculateFee policy feeType (Some (1711 / 2))
             = Some \<lparr>fcAmount = roundToDouble (12832 / 100),
                      fcCurrency = policyCurrency policy\<rparr>"
    and "calculationType feeRule = FIXED \<and> ruleValue feeRule = roundToDouble (2675 / 1000) \<longrightarrow>
           calculateFee policy feeType baseAmount
             = Some \<lparr>fcAmount = roundToDouble (268 / 100),
                      fcCurrency = policyCurrency policy\<rparr>"
proof -
  have m1: "jsMul (1711 / 2) 15 = 25665 / 2"
    unfolding jsMul_def
    using roundToDouble_eval [of 13 "1711 / 2 * 15"]
    by (simp add: roundHalfEven_def Let_def powr_neg_numeral)
  have d1: "jsDiv (25665 / 2) 100 = 4515034548299366 / 2 ^ 45"
    unfolding jsDiv_def
    using roundToDouble_eval [of 7 "25665 / 2 / 100"]
    by (simp add: roundHalfEven_def Let_def powr_neg_numeral)
  have m2: "jsMul (4515034548299366 / 2 ^ 45) 100 = 7054741481717759 / 2 ^ 39"
    unfolding jsMul_def
    using roundToDouble_eval [of 13 "4515034548299366 / 2 ^ 45 * 100"]
    by (simp add: roundHalfEven_def Let_def powr_neg_numeral)
  have r1: "mathRound (7054741481717759 / 2 ^ 39) = 12832"
    by (simp add: mathRound_def)
  have p: "mathRound (jsMul (jsDiv (jsMul (1711 / 2) 15) 100) 100) = 12832"
    by (simp only: m1 d1 m2 r1)
  show "calculationType feeRule = PERCENTAGE \<and> ruleValue feeRule = 15 \<longrightarrow>
           calculateFee policy feeType (Some (1711 / 2))
             = Some \<lparr>fcAmount = roundToDouble (12832 / 100),
                      fcCurrency = policyCurrency policy\<rparr>"
    using assms(2,3)
    by (simp add: calculateFee_percentage [OF assms(1)] clampLowThenHigh_def p)
       (simp add: jsDiv_def)
  have v: "roundToDouble (2675 / 1000) = 6023564501608038 / 2 ^ 51"
    using roundToDouble_eval [of 1 "2675 / 1000"]
    by (simp add: roundHalfEven_def Let_def powr_neg_numeral)
  have m3: "jsMul (6023564501608038 / 2 ^ 51) 100 = 535 / 2"
    unfolding jsMul_def
    using roundToDouble_eval [of 8 "6023564501608038 / 2 ^ 51 * 100"]
    by (simp add: roundHalfEven_def Let_def powr_neg_numeral)
  have r2: "mathRound (535 / 2) = 268"
    by (simp add: mathRound_def)
  have f: "mathRound (jsMul (roundToDouble (2675 / 1000)) 100) = 268"
    by (simp only: v m3 r2)
  show "calculationType feeRule = FIXED \<and> ruleValue feeRule = roundToDouble (2675 / 1000) \<longrightarrow>
           calculateFee policy feeType baseAmount
             = Some \<lparr>fcAmount = roundToDouble (268 / 100),
                      fcCurrency = policyCurrency policy\<rparr>"
    using assms(2,3)
    by (simp add: calculateFee_fixed [OF assms(1)] clampLowThenHigh_def f [simplified])
       (simp add: jsDiv_def)
qed

subsection \<open>Tiers\<close>

lemma tierMatches_closed:
  "tierMatches b t \<longleftrightarrow> fromAmount t \<le> b \<and> (\<forall>to. toAmount t = Some to \<longrightarrow> b \<le> to)"
  by (auto simp: tierMatches_def split: option.splits)

lemma find_first_index:
  assumes "i < length xs" "P (xs ! i)" "\<forall>j < i. \<not> P (xs ! j)"
  shows "find P xs = Some (xs ! i)"
  using assms by (auto simp: find_Some_iff)

lemma find_none_all: "(\<forall>x \<in> set xs. \<not> P x) \<Longrightarrow> find P xs = None"
  by (simp add: find_None_iff)

lemma calculateFee_tiered_eq:
  assumes "find (\<lambda>r. ruleFeeType r = feeType) (feeRules policy) = Some feeRule"
      and "calculationType feeRule = TIERED"
  shows "calculateFee policy feeType baseAmount =
           (case (tiers feeRule, baseAmount) of
              (Some ts, Some b) \<Rightarrow>
                (case find (tierMatches b) ts of
                   None \<Rightarrow> None
                 | Some tier \<Rightarrow>
                     Some \<lparr>fcAmount =
                             jsDiv (mathRound (jsMul
                               (clampLowThenHigh (minimumFee feeRule) (maximumFee feeRule)
                                  (if tierCalculationType tier = TIER_FIXED
                                   then tierValue tier
                                   else jsDiv (jsMul b (tierValue tier)) 100)) 100)) 100,
                           fcCurrency = policyCurrency policy\<rparr>)
            | _ \<Rightarrow> None)"
  using assms
  by (simp add: calculateFee_def Let_def caps_clampLowThenHigh split: option.splits)

text \<open>
  Claim C6, as the code has it. For a \<open>TIERED\<close> rule with a tier list and a base
  amount \<open>b\<close>, the calculation selects the first tier of the list whose closed interval
  from \<open>fromAmount\<close> to \<open>toAmount\<close> contains \<open>b\<close> (no \<open>toAmount\<close>: unbounded
  above), so a base amount equal to a tier's \<open>toAmount\<close> is inside that tier. If no tier
  contains \<open>b\<close>, the result is null. The selected tier gives its value (\<open>FIXED\<close>) or
  \<open>b\<close> times its value, divided by 100 (\<open>PERCENTAGE\<close>), to which the rule's caps and
  the rounding are applied, in the arithmetic of doubles. Without a tier list the result
  is null whatever the base amount is, and without a base amount the result is null.
\<close>

theorem calculateFee_tiered:
  assumes "find (\<lambda>r. ruleFeeType r = feeType) (feeRules policy) = Some feeRule"
      and "calculationType feeRule = TIERED"
  shows "(tierMatches b t \<longleftrightarrow>
            fromAmount t \<le> b \<and> (\<forall>to. toAmount t = Some to \<longrightarrow> b \<le> to)) \<and>
         (tiers feeRule = Some ts \<and> i < length ts \<and> tierMatches b (ts ! i) \<and>
          (\<forall>j < i. \<not> tierMatches b (ts ! j)) \<longrightarrow>
            calculateFee policy feeType (Some b) =
              Some \<lparr>fcAmount =
                      jsDiv (mathRound (jsMul
                        (clampLowThenHigh (minimumFee feeRule) (maximumFee feeRule)
                           (if tierCalculationType (ts ! i) = TIER_FIXED
                            then tierValue (ts ! i)
                            else jsDiv (jsMul b (tierValue (ts ! i))) 100)) 100)) 100,
                     fcCurrency = policyCurrency policy\<rparr>) \<and>
         (tiers feeRule = Some ts \<and> (\<forall>x \<in> set ts. \<not> tierMatches b x) \<longrightarrow>
            calculateFee policy feeType (Some b) = None) \<and>
         (tiers feeRule = None \<longrightarrow> calculateFee policy feeType baseAmount = None) \<and>
         calculateFee policy feeType None = None"
proof (intro conjI impI)
  show "tierMatches b t \<longleftrightarrow>
          fromAmount t \<le> b \<and> (\<forall>to. toAmount t = Some to \<longrightarrow> b \<le> to)"
    by (rule tierMatches_closed)
next
  assume a: "tiers feeRule = Some ts \<and> i < length ts \<and> tierMatches b (ts ! i) \<and>
             (\<forall>j < i. \<not> tierMatches b (ts ! j))"
  then have "find (tierMatches b) ts = Some (ts ! i)"
    by (intro find_first_index) simp_all
  then show "calculateFee policy feeType (Some b) =
      Some \<lparr>fcAmount =
              jsDiv (mathRound (jsMul
                (clampLowThenHigh (minimumFee feeRule) (maximumFee feeRule)
                   (if tierCalculationType (ts ! i) = TIER_FIXED
                    then tierValue (ts ! i)
                    else jsDiv (jsMul b (tierValue (ts ! i))) 100)) 100)) 100,
             fcCurrency = policyCurrency policy\<rparr>"
    using a by (simp add: calculateFee_tiered_eq [OF assms])
next
  assume a: "tiers feeRule = Some ts \<and> (\<forall>x \<in> set ts. \<not> tierMatches b x)"
  then have "find (tierMatches b) ts = None"
    by (intro find_none_all) simp
  then show "calculateFee policy feeType (Some b) = None"
    using a by (simp add: calculateFee_tiered_eq [OF assms])
next
  assume "tiers feeRule = None"
  then show "calculateFee policy feeType baseAmount = None"
    by (simp add: calculateFee_tiered_eq [OF assms])
next
  show "calculateFee policy feeType None = None"
    by (simp add: calculateFee_tiered_eq [OF assms] split: option.splits)
qed

theorem calculateFee_tiered_witness:
  "calculateFee examplePolicy PROCESSING_FEE (Some 1000)
     = Some \<lparr>fcAmount = 100, fcCurrency = EUR\<rparr> \<and>
   calculateFee examplePolicy PROCESSING_FEE None = None"
proof -
  have r: "find (\<lambda>r. ruleFeeType r = PROCESSING_FEE) (feeRules examplePolicy) = Some tieredRule"
    by (simp add: fee_eval)
  have t: "calculationType tieredRule = TIERED"
    by (simp add: tieredRule_def)
  have ts: "tiers tieredRule = Some [lowTier, highTier] \<and> 0 < length [lowTier, highTier] \<and>
            tierMatches 1000 ([lowTier, highTier] ! 0) \<and>
            (\<forall>j < 0. \<not> tierMatches 1000 ([lowTier, highTier] ! j))"
    by (simp add: tieredRule_def lowTier_def tierMatches_def)
  have v: "jsDiv (mathRound (jsMul
             (clampLowThenHigh (minimumFee tieredRule) (maximumFee tieredRule)
                (if tierCalculationType ([lowTier, highTier] ! 0) = TIER_FIXED
                 then tierValue ([lowTier, highTier] ! 0)
                 else jsDiv (jsMul 1000 (tierValue ([lowTier, highTier] ! 0))) 100)) 100)) 100
           = 100"
    by (simp add: tieredRule_def lowTier_def clampLowThenHigh_def number_eval)
  have c: "policyCurrency examplePolicy = EUR"
    by (simp add: examplePolicy_def)
  from calculateFee_tiered [OF r t, where b = 1000 and i = 0 and t = lowTier
      and ts = "[lowTier, highTier]" and baseAmount = None] ts
  show ?thesis
    unfolding v c by blast
qed

text \<open>
  Claim C6 as stated fails at a base amount equal to a tier's \<open>toAmount\<close>. With the
  tiers 0 to 1000 (fixed 100) and 1000 upwards (20 per cent), the base amount 1000 is
  outside the half-open first tier and inside the second, which would give 200; the code
  selects the first tier and returns 100.
\<close>

theorem calculateFee_tiered_counterexample:
  "\<not> tierContainsHalfOpen 1000 lowTier \<and> tierContainsHalfOpen 1000 highTier \<and>
   tierMatches 1000 lowTier \<and>
   calculateFee examplePolicy PROCESSING_FEE (Some 1000)
     = Some \<lparr>fcAmount = 100, fcCurrency = EUR\<rparr>"
  by (simp add: calculateFee_def fee_eval number_eval tierMatches_def
        tierContainsHalfOpen_def)

section \<open>Storage lookups\<close>

lemma findIndex_of_find:
  "find P xs = Some x \<Longrightarrow> \<exists>i. findIndex P xs = Some i \<and> i < length xs \<and> xs ! i = x"
proof (induction xs)
  case Nil
  then show ?case by simp
next
  case (Cons a xs)
  then show ?case by (cases "P a") auto
qed

lemma findIndex_None_iff: "findIndex P xs = None \<longleftrightarrow> find P xs = None"
  by (induction xs) auto

lemma find_list_update:
  "findIndex P xs = Some i \<Longrightarrow> P y \<Longrightarrow> find P (xs[i := y]) = Some y"
proof (induction xs arbitrary: i)
  case Nil
  then show ?case by simp
next
  case (Cons a xs)
  then show ?case by (cases "P a") auto
qed

lemma find_Some_holds: "find P xs = Some x \<Longrightarrow> P x"
  by (auto simp: find_Some_iff)

lemma findIndex_length: "findIndex P xs = Some i \<Longrightarrow> i < length xs"
proof (induction xs arbitrary: i)
  case Nil
  then show ?case by simp
next
  case (Cons a xs)
  then show ?case by (cases "P a") auto
qed

text \<open>Storing an event under the id it was looked up with replaces the one found.\<close>

lemma updateEvent_found:
  assumes "getEventById s ident = Some event" "evId updates = ident"
  shows "\<exists>s'. updateEvent ident updates now s = Inr s' \<and>
              getEventById s' ident = Some (updates\<lparr>updatedAt := now\<rparr>) \<and>
              length (billableEvents s') = length (billableEvents s) \<and>
              clientPolicies s' = clientPolicies s \<and> invoiceLinks s' = invoiceLinks s \<and>
              auditLogs s' = auditLogs s"
proof -
  from findIndex_of_find [OF assms(1) [unfolded getEventById_def]]
  obtain i where i: "findIndex (\<lambda>e. evId e = ident) (billableEvents s) = Some i" by blast
  have "find (\<lambda>e. evId e = ident) ((billableEvents s)[i := updates\<lparr>updatedAt := now\<rparr>])
          = Some (updates\<lparr>updatedAt := now\<rparr>)"
    using i assms(2) by (intro find_list_update) simp_all
  then show ?thesis using i by (simp add: updateEvent_def getEventById_def)
qed

lemma updateInvoiceLink_found:
  assumes "getInvoiceLinkById s ident = Some link" "linkId updates = ident"
  shows "\<exists>s'. updateInvoiceLink ident updates now s = Inr s' \<and>
              getInvoiceLinkById s' ident = Some (updates\<lparr>linkUpdatedAt := now\<rparr>) \<and>
              billableEvents s' = billableEvents s \<and>
              clientPolicies s' = clientPolicies s \<and> auditLogs s' = auditLogs s"
proof -
  from findIndex_of_find [OF assms(1) [unfolded getInvoiceLinkById_def]]
  obtain i where i: "findIndex (\<lambda>l. linkId l = ident) (invoiceLinks s) = Some i" by blast
  have "find (\<lambda>l. linkId l = ident) ((invoiceLinks s)[i := updates\<lparr>linkUpdatedAt := now\<rparr>])
          = Some (updates\<lparr>linkUpdatedAt := now\<rparr>)"
    using i assms(2) by (intro find_list_update) simp_all
  then show ?thesis using i by (simp add: updateInvoiceLink_def getInvoiceLinkById_def)
qed

lemma getEventById_id: "getEventById s ident = Some event \<Longrightarrow> evId event = ident"
  unfolding getEventById_def by (drule find_Some_holds) simp

lemma getInvoiceLinkById_id: "getInvoiceLinkById s ident = Some link \<Longrightarrow> linkId link = ident"
  unfolding getInvoiceLinkById_def by (drule find_Some_holds) simp

lemma getEventById_auditLog [simp]:
  "getEventById (auditLog c a t i s) ident = getEventById s ident"
  by (simp add: auditLog_def saveAuditLog_def getEventById_def)

lemma getInvoiceLinkById_auditLog [simp]:
  "getInvoiceLinkById (auditLog c a t i s) ident = getInvoiceLinkById s ident"
  by (simp add: auditLog_def saveAuditLog_def getInvoiceLinkById_def)

lemma billableEvents_auditLog [simp]:
  "billableEvents (auditLog c a t i s) = billableEvents s"
  by (simp add: auditLog_def saveAuditLog_def)

section \<open>Payments on an invoice link\<close>

lemma recordPayment_fields:
  "totalPaid (recordPayment link p now) = jsAdd (totalPaid link) (payAmount p)"
  "linkAmount (recordPayment link p now) = linkAmount link"
  "balance (recordPayment link p now) =
     max 0 (jsSub (linkAmount link) (jsAdd (totalPaid link) (payAmount p)))"
  "linkId (recordPayment link p now) = linkId link"
  "billableEventId (recordPayment link p now) = billableEventId link"
  "payments (recordPayment link p now) = payments link @ [p]"
  by (simp_all add: recordPayment_def Let_def)

lemma recordPayment_status:
  "qbStatus (recordPayment link p now) =
     (if balance (recordPayment link p now) \<le> 0 then QB_PAID
      else if totalPaid (recordPayment link p now) > 0 then QB_PARTIAL
      else qbStatus link)"
  by (simp add: recordPayment_def Let_def max_def)

lemma recordPayment_paidInFullDate:
  "paidInFullDate (recordPayment link p now) =
     (if balance (recordPayment link p now) \<le> 0 then Some (paymentDate p)
      else paidInFullDate link)"
  by (simp add: recordPayment_def Let_def max_def)

lemma applyPayments_snoc:
  "applyPayments link (ps @ [(p, now)]) = recordPayment (applyPayments link ps) p now"
  by (simp add: applyPayments_def)

lemma applyPayments_amount: "linkAmount (applyPayments link ps) = linkAmount link"
  by (induction ps rule: rev_induct)
     (simp_all add: applyPayments_def recordPayment_fields split: prod.splits)

text \<open>The total of a link that has recorded payments is a double.\<close>

lemma applyPayments_isDouble:
  "isDouble (totalPaid link) \<Longrightarrow> isDouble (totalPaid (applyPayments link ps))"
  by (induction ps rule: rev_induct)
     (simp_all add: applyPayments_def recordPayment_fields jsAdd_isDouble split: prod.splits)

text \<open>
  Claim C4, as the code has it. After any sequence of payments \<open>ps\<close> recorded on a
  link, and one more payment \<open>p\<close>: the balance is \<open>Math.max(0, amount - totalPaid)\<close>,
  the difference being the one of doubles that the code computes, and is not negative;
  the amount is the link's; \<open>totalPaid\<close> is the sum, as doubles, of the total before
  and the payment's amount; and \<open>totalPaid\<close> has not decreased when that amount is not
  negative (the link's total at the start being a double, as every number of the program
  is).
\<close>

theorem recordPayment_balance_invariant:
  "balance (applyPayments link (ps @ [(p, now)])) =
     max 0 (jsSub (linkAmount (applyPayments link (ps @ [(p, now)])))
                  (totalPaid (applyPayments link (ps @ [(p, now)])))) \<and>
   0 \<le> balance (applyPayments link (ps @ [(p, now)])) \<and>
   linkAmount (applyPayments link (ps @ [(p, now)])) = linkAmount link \<and>
   totalPaid (applyPayments link (ps @ [(p, now)]))
     = jsAdd (totalPaid (applyPayments link ps)) (payAmount p) \<and>
   (isDouble (totalPaid link) \<and> 0 \<le> payAmount p \<longrightarrow>
      totalPaid (applyPayments link ps) \<le> totalPaid (applyPayments link (ps @ [(p, now)])))"
  by (simp add: applyPayments_snoc recordPayment_fields applyPayments_amount
        applyPayments_isDouble jsAdd_nonnegative)

theorem recordPayment_balance_invariant_witness:
  "isDouble (totalPaid exampleLink) \<and>
   balance (applyPayments exampleLink
              [(examplePayment 400 ''2024-01-10'', ''t1''), (examplePayment 700 ''2024-01-12'', ''t2'')]) = 0 \<and>
   totalPaid (applyPayments exampleLink
              [(examplePayment 400 ''2024-01-10'', ''t1''), (examplePayment 700 ''2024-01-12'', ''t2'')]) = 1100 \<and>
   totalPaid (applyPayments exampleLink [(examplePayment 400 ''2024-01-10'', ''t1'')]) = 400 \<and>
   totalPaid (applyPayments exampleLink [(examplePayment 400 ''2024-01-10'', ''t1'')])
     \<le> totalPaid (applyPayments exampleLink
              [(examplePayment 400 ''2024-01-10'', ''t1''), (examplePayment 700 ''2024-01-12'', ''t2'')])"
proof -
  have a: "totalPaid (applyPayments exampleLink [(examplePayment 400 ''2024-01-10'', ''t1'')]) = 400"
    by (simp add: applyPayments_def recordPayment_fields exampleLink_def examplePayment_def
          number_eval)
  have b: "linkAmount exampleLink = 1000" "payAmount (examplePayment 700 ''2024-01-12'') = 700"
    by (simp_all add: exampleLink_def examplePayment_def)
  have d: "isDouble (totalPaid exampleLink)"
    by (simp add: exampleLink_def isDouble_0)
  have e: "jsAdd 400 700 = 1100" "jsSub 1000 1100 = - 100"
    by (simp_all add: number_eval)
  show ?thesis
    using recordPayment_balance_invariant [of exampleLink
        "[(examplePayment 400 ''2024-01-10'', ''t1'')]" "examplePayment 700 ''2024-01-12''" "''t2''"]
    by (simp add: a b d e)
qed

text \<open>
  Claim C4 as stated fails for a payment with a negative amount, which
  \<open>recordPayment\<close> accepts: after a payment of 400, a payment of -100 lowers
  \<open>totalPaid\<close> from 400 to 300.
\<close>

theorem recordPayment_totalPaid_counterexample:
  "totalPaid (applyPayments exampleLink [(examplePayment 400 ''2024-01-10'', ''t1'')]) = 400 \<and>
   totalPaid (applyPayments exampleLink
                [(examplePayment 400 ''2024-01-10'', ''t1''),
                 (examplePayment (- 100) ''2024-01-12'', ''t2'')]) = 300"
  by (simp add: applyPayments_def recordPayment_fields exampleLink_def examplePayment_def
        number_eval)

text \<open>
  The sums are those of doubles. Ten payments of the number written \<open>0.1\<close> on a link of
  amount 1 leave \<open>totalPaid\<close> at the double just below 1, written
  \<open>0.9999999999999999\<close>: the balance stays above 0 and the status is \<open>PARTIAL\<close>. A
  payment of the number written \<open>0.3\<close> on a link of amount 1 with \<open>0.7\<close> paid gives
  the total 1, the balance 0 and the status \<open>PAID\<close>.
\<close>

lemma applyPayments_totalPaid:
  "totalPaid (applyPayments link ps)
     = foldl (\<lambda>t (p, now). jsAdd t (payAmount p)) (totalPaid link) ps"
  by (induction ps rule: rev_induct)
     (simp_all add: applyPayments_def recordPayment_fields split: prod.splits)

lemma ten_tenths:
  "foldl jsAdd 0 [roundToDouble (1 / 10), roundToDouble (1 / 10), roundToDouble (1 / 10),
      roundToDouble (1 / 10), roundToDouble (1 / 10), roundToDouble (1 / 10),
      roundToDouble (1 / 10), roundToDouble (1 / 10), roundToDouble (1 / 10),
      roundToDouble (1 / 10)] = 9007199254740991 / 2 ^ 53"
proof -
  have s1: "jsAdd 0 (3602879701896397 / 2 ^ 55) = 3602879701896397 / 2 ^ 55"
    unfolding jsAdd_def
    using roundToDouble_eval [of "- 4" "0 + 3602879701896397 / 2 ^ 55"]
    by (simp add: roundHalfEven_def Let_def powr_neg_numeral)
  have s2: "jsAdd (3602879701896397 / 2 ^ 55) (3602879701896397 / 2 ^ 55)
              = 3602879701896397 / 2 ^ 54"
    unfolding jsAdd_def
    using roundToDouble_eval [of "- 3" "3602879701896397 / 2 ^ 55 + 3602879701896397 / 2 ^ 55"]
    by (simp add: roundHalfEven_def Let_def powr_neg_numeral)
  have s3: "jsAdd (3602879701896397 / 2 ^ 54) (3602879701896397 / 2 ^ 55)
              = 1351079888211149 / 2 ^ 52"
    unfolding jsAdd_def
    using roundToDouble_eval [of "- 2" "3602879701896397 / 2 ^ 54 + 3602879701896397 / 2 ^ 55"]
    by (simp add: roundHalfEven_def Let_def powr_neg_numeral)
  have s4: "jsAdd (1351079888211149 / 2 ^ 52) (3602879701896397 / 2 ^ 55)
              = 3602879701896397 / 2 ^ 53"
    unfolding jsAdd_def
    using roundToDouble_eval [of "- 2" "1351079888211149 / 2 ^ 52 + 3602879701896397 / 2 ^ 55"]
    by (simp add: roundHalfEven_def Let_def powr_neg_numeral)
  have s5: "jsAdd (3602879701896397 / 2 ^ 53) (3602879701896397 / 2 ^ 55) = 1 / 2"
    unfolding jsAdd_def
    using roundToDouble_eval [of "- 1" "3602879701896397 / 2 ^ 53 + 3602879701896397 / 2 ^ 55"]
    by (simp add: roundHalfEven_def Let_def powr_neg_numeral)
  have s6: "jsAdd (1 / 2) (3602879701896397 / 2 ^ 55) = 5404319552844595 / 2 ^ 53"
    unfolding jsAdd_def
    using roundToDouble_eval [of "- 1" "1 / 2 + 3602879701896397 / 2 ^ 55"]
    by (simp add: roundHalfEven_def Let_def powr_neg_numeral)
  have s7: "jsAdd (5404319552844595 / 2 ^ 53) (3602879701896397 / 2 ^ 55)
              = 3152519739159347 / 2 ^ 52"
    unfolding jsAdd_def
    using roundToDouble_eval [of "- 1" "5404319552844595 / 2 ^ 53 + 3602879701896397 / 2 ^ 55"]
    by (simp add: roundHalfEven_def Let_def powr_neg_numeral)
  have s8: "jsAdd (3152519739159347 / 2 ^ 52) (3602879701896397 / 2 ^ 55)
              = 7205759403792793 / 2 ^ 53"
    unfolding jsAdd_def
    using roundToDouble_eval [of "- 1" "3152519739159347 / 2 ^ 52 + 3602879701896397 / 2 ^ 55"]
    by (simp add: roundHalfEven_def Let_def powr_neg_numeral)
  have s9: "jsAdd (7205759403792793 / 2 ^ 53) (3602879701896397 / 2 ^ 55)
              = 2026619832316723 / 2 ^ 51"
    unfolding jsAdd_def
    using roundToDouble_eval [of "- 1" "7205759403792793 / 2 ^ 53 + 3602879701896397 / 2 ^ 55"]
    by (simp add: roundHalfEven_def Let_def powr_neg_numeral)
  have s10: "jsAdd (2026619832316723 / 2 ^ 51) (3602879701896397 / 2 ^ 55)
              = 9007199254740991 / 2 ^ 53"
    unfolding jsAdd_def
    using roundToDouble_eval [of "- 1" "2026619832316723 / 2 ^ 51 + 3602879701896397 / 2 ^ 55"]
    by (simp add: roundHalfEven_def Let_def powr_neg_numeral)
  show ?thesis
    by (simp only: foldl.simps double_one_tenth s1 s2 s3 s4 s5 s6 s7 s8 s9 s10)
qed

lemma recordPayment_binary_rounding:
  assumes "linkAmount link = 1"
  shows "totalPaid link = 0 \<and> payAmount p = roundToDouble (1 / 10) \<longrightarrow>
           totalPaid (applyPayments link
             [(p, t1), (p, t2), (p, t3), (p, t4), (p, t5), (p, t6), (p, t7), (p, t8), (p, t9),
              (p, t10)]) = 9007199254740991 / 2 ^ 53 \<and>
           balance (applyPayments link
             [(p, t1), (p, t2), (p, t3), (p, t4), (p, t5), (p, t6), (p, t7), (p, t8), (p, t9),
              (p, t10)]) = 1 / 2 ^ 53 \<and>
           qbStatus (applyPayments link
             [(p, t1), (p, t2), (p, t3), (p, t4), (p, t5), (p, t6), (p, t7), (p, t8), (p, t9),
              (p, t10)]) = QB_PARTIAL"
    and "totalPaid link = roundToDouble (7 / 10) \<and> payAmount p = roundToDouble (3 / 10) \<longrightarrow>
           totalPaid (recordPayment link p now) = 1 \<and>
           balance (recordPayment link p now) = 0 \<and>
           qbStatus (recordPayment link p now) = QB_PAID"
proof -
  let ?ps = "[(p, t1), (p, t2), (p, t3), (p, t4), (p, t5), (p, t6), (p, t7), (p, t8), (p, t9)]"
  let ?all = "[(p, t1), (p, t2), (p, t3), (p, t4), (p, t5), (p, t6), (p, t7), (p, t8), (p, t9),
               (p, t10)]"
  have sub: "jsSub 1 (9007199254740991 / 2 ^ 53) = 1 / 2 ^ 53"
    unfolding jsSub_def
    using roundToDouble_eval [of "- 53" "1 - 9007199254740991 / 2 ^ 53"]
    by (simp add: roundHalfEven_def Let_def powr_neg_numeral)
  have split: "?all = ?ps @ [(p, t10)]" by simp
  show "totalPaid link = 0 \<and> payAmount p = roundToDouble (1 / 10) \<longrightarrow>
           totalPaid (applyPayments link ?all) = 9007199254740991 / 2 ^ 53 \<and>
           balance (applyPayments link ?all) = 1 / 2 ^ 53 \<and>
           qbStatus (applyPayments link ?all) = QB_PARTIAL"
  proof
    assume a: "totalPaid link = 0 \<and> payAmount p = roundToDouble (1 / 10)"
    have tot: "totalPaid (applyPayments link ?all) = 9007199254740991 / 2 ^ 53"
      using a ten_tenths by (simp add: applyPayments_totalPaid)
    have "balance (applyPayments link ?all)
            = max 0 (jsSub (linkAmount (applyPayments link ?all))
                           (totalPaid (applyPayments link ?all)))"
      unfolding split applyPayments_snoc by (simp add: recordPayment_fields)
    then have bal: "balance (applyPayments link ?all) = 1 / 2 ^ 53"
      by (simp only: tot applyPayments_amount assms sub) simp
    have "qbStatus (applyPayments link ?all) =
            (if balance (applyPayments link ?all) \<le> 0 then QB_PAID
             else if totalPaid (applyPayments link ?all) > 0 then QB_PARTIAL
             else qbStatus (applyPayments link ?ps))"
      unfolding split applyPayments_snoc by (rule recordPayment_status)
    then have "qbStatus (applyPayments link ?all) = QB_PARTIAL"
      by (simp only: tot bal) simp
    with tot bal show "totalPaid (applyPayments link ?all) = 9007199254740991 / 2 ^ 53 \<and>
           balance (applyPayments link ?all) = 1 / 2 ^ 53 \<and>
           qbStatus (applyPayments link ?all) = QB_PARTIAL"
      by simp
  qed
  show "totalPaid link = roundToDouble (7 / 10) \<and> payAmount p = roundToDouble (3 / 10) \<longrightarrow>
           totalPaid (recordPayment link p now) = 1 \<and>
           balance (recordPayment link p now) = 0 \<and>
           qbStatus (recordPayment link p now) = QB_PAID"
  proof
    assume a: "totalPaid link = roundToDouble (7 / 10) \<and> payAmount p = roundToDouble (3 / 10)"
    have tot: "totalPaid (recordPayment link p now) = 1"
      using a by (simp add: recordPayment_fields jsAdd_seven_three_tenths)
    have bal: "balance (recordPayment link p now) = 0"
      using a assms
      by (simp add: recordPayment_fields jsAdd_seven_three_tenths) (simp add: number_eval)
    have "qbStatus (recordPayment link p now) = QB_PAID"
      using recordPayment_status [of link p now] bal by simp
    with tot bal show "totalPaid (recordPayment link p now) = 1 \<and>
           balance (recordPayment link p now) = 0 \<and>
           qbStatus (recordPayment link p now) = QB_PAID"
      by simp
  qed
qed

section \<open>Status transitions of a billable event\<close>

lemma getEventById_cong:
  "billableEvents s' = billableEvents s \<Longrightarrow> getEventById s' ident = getEventById s ident"
  by (simp add: getEventById_def)

lemma getInvoiceLinkById_cong:
  "invoiceLinks s' = invoiceLinks s \<Longrightarrow> getInvoiceLinkById s' ident = getInvoiceLinkById s ident"
  by (simp add: getInvoiceLinkById_def)

lemma updateEventStatus_fields:
  "evStatus (updateEventStatus event st u r now) = st"
  "statusHistory (updateEventStatus event st u r now) =
     statusHistory event @ [\<lparr>seStatus = st, seTimestamp = now, seUserId = u, seReason = r\<rparr>]"
  "evId (updateEventStatus event st u r now) = evId event"
  "idempotencyKey (updateEventStatus event st u r now) = idempotencyKey event"
  "updatedAt (updateEventStatus event st u r now) = now"
  by (simp_all add: updateEventStatus_def)

lemma updateEventStatus_updatedAt:
  "(updateEventStatus event st u r now)\<lparr>updatedAt := now\<rparr> = updateEventStatus event st u r now"
  by (simp add: updateEventStatus_def)

lemma markAsPaid_found:
  assumes "getEventById s ident = Some event"
  shows "\<exists>s'. markAsPaid context ident now s =
                 (Inr (updateEventStatus event PAID (userId context) (Some ''Payment received'') now),
                  s') \<and>
              getEventById s' ident =
                Some (updateEventStatus event PAID (userId context) (Some ''Payment received'') now) \<and>
              invoiceLinks s' = invoiceLinks s \<and> clientPolicies s' = clientPolicies s"
proof -
  let ?u = "updateEventStatus event PAID (userId context) (Some ''Payment received'') now"
  have "evId ?u = ident"
    using getEventById_id [OF assms] by (simp add: updateEventStatus_fields)
  from updateEvent_found [OF assms this, of now]
  obtain s' where s': "updateEvent ident ?u now s = Inr s'"
      "getEventById s' ident = Some (?u\<lparr>updatedAt := now\<rparr>)"
      "invoiceLinks s' = invoiceLinks s" "clientPolicies s' = clientPolicies s"
    by blast
  then show ?thesis
    using assms
    by (simp add: markAsPaid_def getEventByIdOrThrow_def Let_def updateEventStatus_updatedAt)
qed

lemma approveEvent_rejected:
  assumes "getEventById s ident = Some event"
      and "evStatus event \<noteq> PENDING" "evStatus event \<noteq> HOLD"
  shows "approveEvent context ident notes now s =
           (Inl (ValidationError ''Event cannot be approved''
                  [(''status'', ''Current status is '' @ statusString (evStatus event)
                                  @ '', expected PENDING or HOLD'')]), s)"
  using assms by (simp add: approveEvent_def getEventByIdOrThrow_def)

lemma holdEvent_rejected:
  assumes "getEventById s ident = Some event"
      and "evStatus event \<noteq> PENDING" "evStatus event \<noteq> APPROVED"
  shows "holdEvent context ident reason now s =
           (Inl (ValidationError ''Event cannot be put on hold''
                  [(''status'', ''Current status is '' @ statusString (evStatus event))]), s)"
  using assms by (simp add: holdEvent_def getEventByIdOrThrow_def)

lemma markAsInvoiced_rejected:
  assumes "getEventById s ident = Some event"
      and "evStatus event \<noteq> APPROVED"
  shows "markAsInvoiced context ident now s =
           (Inl (ValidationError ''Only approved events can be marked as invoiced''
                  [(''status'', statusString (evStatus event))]), s)"
  using assms by (simp add: markAsInvoiced_def getEventByIdOrThrow_def)

lemma approveEvent_accepted:
  assumes "getEventById s ident = Some event"
      and "evStatus event = PENDING \<or> evStatus event = HOLD"
  shows "\<exists>updated s'. approveEvent context ident notes now s = (Inr updated, s') \<and>
           evStatus updated = APPROVED \<and>
           approvedAt updated = Some now \<and> approvedBy updated = Some (userId context) \<and>
           approvalNotes updated = notes \<and>
           statusHistory updated = statusHistory event @
             [\<lparr>seStatus = APPROVED, seTimestamp = now, seUserId = userId context,
               seReason = notes\<rparr>] \<and>
           getEventById s' ident = Some updated"
proof -
  let ?u = "(updateEventStatus event APPROVED (userId context) notes now)
              \<lparr>approvedAt := Some now, approvedBy := Some (userId context),
               approvalNotes := notes\<rparr>"
  have id: "evId ?u = ident"
    using getEventById_id [OF assms(1)] by (simp add: updateEventStatus_fields)
  have same: "?u\<lparr>updatedAt := now\<rparr> = ?u"
    by (simp add: updateEventStatus_def)
  from updateEvent_found [OF assms(1) id, of now]
  obtain s' where s': "updateEvent ident ?u now s = Inr s'"
      "getEventById s' ident = Some (?u\<lparr>updatedAt := now\<rparr>)"
    by blast
  have "approveEvent context ident notes now s =
          (Inr ?u, auditLog context ''APPROVE'' ''BILLABLE_EVENT'' ident s')"
    using assms s'(1) by (auto simp: approveEvent_def getEventByIdOrThrow_def Let_def)
  moreover have "getEventById (auditLog context ''APPROVE'' ''BILLABLE_EVENT'' ident s') ident
                   = Some ?u"
    using s'(2) same by simp
  ultimately show ?thesis
    by (intro exI [of _ ?u] exI [of _ "auditLog context ''APPROVE'' ''BILLABLE_EVENT'' ident s'"])
       (simp add: updateEventStatus_fields)
qed

text \<open>
  Claim C8, as the code has it. For an existing event, \<open>approveEvent\<close> succeeds exactly
  when the status is \<open>PENDING\<close> or \<open>HOLD\<close>: it then sets \<open>APPROVED\<close>, stamps
  \<open>approvedAt\<close> and \<open>approvedBy\<close>, appends a history entry and stores the event. In
  every other status it throws a \<open>ValidationError\<close> (``Event cannot be approved'', the
  error code \<open>VALIDATION_ERROR\<close>, the kind \<open>Validation\<close>) and leaves the storage,
  and so the event's status, as it was. The code has no error kind of its own for an
  illegal transition.
\<close>

theorem approveEvent_legal_from_pending_or_hold:
  assumes "getEventById s ident = Some event"
  shows "(evStatus event = PENDING \<or> evStatus event = HOLD \<longrightarrow>
            (\<exists>updated s'. approveEvent context ident notes now s = (Inr updated, s') \<and>
               evStatus updated = APPROVED \<and>
               approvedAt updated = Some now \<and> approvedBy updated = Some (userId context) \<and>
               approvalNotes updated = notes \<and>
               statusHistory updated = statusHistory event @
                 [\<lparr>seStatus = APPROVED, seTimestamp = now, seUserId = userId context,
                   seReason = notes\<rparr>] \<and>
               getEventById s' ident = Some updated)) \<and>
         (evStatus event \<noteq> PENDING \<and> evStatus event \<noteq> HOLD \<longrightarrow>
            (\<exists>fields. approveEvent context ident notes now s
                         = (Inl (ValidationError ''Event cannot be approved'' fields), s) \<and>
                       errorCode (ValidationError ''Event cannot be approved'' fields)
                         = Some ''VALIDATION_ERROR'' \<and>
                       errorKind (ValidationError ''Event cannot be approved'' fields)
                         = Some Validation))"
  using approveEvent_accepted [OF assms, of "context" "notes" now]
    approveEvent_rejected [OF assms, of "context" "notes" now]
  by auto

lemmas store_eval =
  exampleStore_def exampleEvent_def exampleLink_def exampleContext_def
  getEventById_def getInvoiceLinkById_def

theorem approveEvent_legal_from_pending_or_hold_witness:
  "getEventById exampleStore ''event-1'' = Some exampleEvent \<and>
   evStatus exampleEvent = INVOICED \<and>
   (\<exists>fields. approveEvent exampleContext ''event-1'' None ''2024-01-02T10:00:00.000Z'' exampleStore
                = (Inl (ValidationError ''Event cannot be approved'' fields), exampleStore))"
proof -
  have h: "getEventById exampleStore ''event-1'' = Some exampleEvent"
    by (simp add: store_eval)
  have st: "evStatus exampleEvent = INVOICED"
    by (simp add: exampleEvent_def)
  show ?thesis
    using approveEvent_legal_from_pending_or_hold [OF h, of exampleContext None
        "''2024-01-02T10:00:00.000Z''"]
    by (simp add: h st)
qed

text \<open>
  Claim C8 as stated names the failure \<open>IllegalTransition\<close>. On an \<open>INVOICED\<close> event
  the code throws the same \<open>ValidationError\<close>, with the code \<open>VALIDATION_ERROR\<close>,
  that it throws for malformed input: its kind is not \<open>IllegalTransition\<close>.
\<close>

theorem approveEvent_error_kind_counterexample:
  "approveEvent exampleContext ''event-1'' None ''2024-01-02T10:00:00.000Z'' exampleStore
     = (Inl (ValidationError ''Event cannot be approved''
               [(''status'', ''Current status is INVOICED, expected PENDING or HOLD'')]),
        exampleStore) \<and>
   errorCode (ValidationError ''Event cannot be approved''
               [(''status'', ''Current status is INVOICED, expected PENDING or HOLD'')])
     = Some ''VALIDATION_ERROR'' \<and>
   errorKind (ValidationError ''Event cannot be approved''
               [(''status'', ''Current status is INVOICED, expected PENDING or HOLD'')])
     \<noteq> Some IllegalTransition"
  by (simp add: approveEvent_def getEventByIdOrThrow_def store_eval)

text \<open>
  Claim C10. For an existing event in any status, \<open>markAsPaid\<close> succeeds, sets the
  status \<open>PAID\<close>, appends a history entry and stores the event; it checks no status.
  An event that is already \<open>PAID\<close> is rejected by \<open>approveEvent\<close>, \<open>holdEvent\<close>
  and \<open>markAsInvoiced\<close>, and accepted by \<open>markAsPaid\<close>.
\<close>

theorem markAsPaid_any_status:
  assumes "getEventById s ident = Some event"
  shows "(\<exists>updated s'. markAsPaid context ident now s = (Inr updated, s') \<and>
            evStatus updated = PAID \<and>
            statusHistory updated = statusHistory event @
              [\<lparr>seStatus = PAID, seTimestamp = now, seUserId = userId context,
                seReason = Some ''Payment received''\<rparr>] \<and>
            getEventById s' ident = Some updated) \<and>
         (evStatus event = PAID \<longrightarrow>
            (\<exists>e. approveEvent context ident notes now s = (Inl e, s)) \<and>
            (\<exists>e. holdEvent context ident reason now s = (Inl e, s)) \<and>
            (\<exists>e. markAsInvoiced context ident now s = (Inl e, s)))"
proof (intro conjI impI)
  from markAsPaid_found [OF assms, of "context" now]
  show "\<exists>updated s'. markAsPaid context ident now s = (Inr updated, s') \<and>
            evStatus updated = PAID \<and>
            statusHistory updated = statusHistory event @
              [\<lparr>seStatus = PAID, seTimestamp = now, seUserId = userId context,
                seReason = Some ''Payment received''\<rparr>] \<and>
            getEventById s' ident = Some updated"
    by (auto simp: updateEventStatus_fields)
next
  assume p: "evStatus event = PAID"
  show "\<exists>e. approveEvent context ident notes now s = (Inl e, s)"
    using approveEvent_rejected [OF assms, of "context" "notes" now] p by simp
  show "\<exists>e. holdEvent context ident reason now s = (Inl e, s)"
    using holdEvent_rejected [OF assms, of "context" reason now] p by simp
  show "\<exists>e. markAsInvoiced context ident now s = (Inl e, s)"
    using markAsInvoiced_rejected [OF assms, of "context" now] p by simp
qed

theorem markAsPaid_any_status_witness:
  "getEventById exampleStore ''event-1'' = Some exampleEvent \<and>
   evStatus exampleEvent = INVOICED \<and>
   (\<exists>updated s'. markAsPaid exampleContext ''event-1'' ''2024-01-02T10:00:00.000Z'' exampleStore
                    = (Inr updated, s') \<and>
                  evStatus updated = PAID \<and>
                  getEventById s' ''event-1'' = Some updated)"
proof -
  have h: "getEventById exampleStore ''event-1'' = Some exampleEvent"
    by (simp add: store_eval)
  have st: "evStatus exampleEvent = INVOICED"
    by (simp add: exampleEvent_def)
  show ?thesis
    using markAsPaid_any_status [OF h, of exampleContext "''2024-01-02T10:00:00.000Z''"
        None "''reason''"]
    by (simp add: h st) blast
qed

section \<open>Recording a payment through the invoice service\<close>

lemma recordPaymentFromQb_paid:
  assumes link: "getInvoiceLinkById s lid = Some link"
      and ev: "getEventById s (billableEventId link) = Some event"
      and paid: "qbStatus (recordPayment link (payment\<lparr>syncedAt := now\<rparr>) now) = QB_PAID"
  shows "\<exists>s'. recordPaymentFromQb ctx lid payment now s =
                 (Inr (recordPayment link (payment\<lparr>syncedAt := now\<rparr>) now), s') \<and>
              getInvoiceLinkById s' lid =
                Some (recordPayment link (payment\<lparr>syncedAt := now\<rparr>) now) \<and>
              getEventById s' (billableEventId link) =
                Some (updateEventStatus event PAID (userId ctx)
                        (Some ''Payment received'') now)"
proof -
  let ?u = "recordPayment link (payment\<lparr>syncedAt := now\<rparr>) now"
  let ?e = "updateEventStatus event PAID (userId ctx) (Some ''Payment received'') now"
  have id: "linkId ?u = lid"
    using getInvoiceLinkById_id [OF link] by (simp add: recordPayment_fields)
  have same: "?u\<lparr>linkUpdatedAt := now\<rparr> = ?u"
    by (simp add: recordPayment_def Let_def)
  from updateInvoiceLink_found [OF link id, of now]
  obtain s1 where s1: "updateInvoiceLink lid ?u now s = Inr s1"
      "getInvoiceLinkById s1 lid = Some ?u" "billableEvents s1 = billableEvents s"
    using same by auto
  have "getEventById s1 (billableEventId link) = Some event"
    using ev getEventById_cong [OF s1(3)] by simp
  from markAsPaid_found [OF this, of ctx now]
  obtain s2 where s2: "markAsPaid ctx (billableEventId link) now s1 = (Inr ?e, s2)"
      "getEventById s2 (billableEventId link) = Some ?e" "invoiceLinks s2 = invoiceLinks s1"
    by blast
  have l2: "getInvoiceLinkById s2 lid = Some ?u"
    using s1(2) getInvoiceLinkById_cong [OF s2(3)] by simp
  have "recordPaymentFromQb ctx lid payment now s =
          (Inr ?u, auditLog ctx ''PAYMENT_RECORD'' ''INVOICE_LINK'' lid s2)"
    using link s1(1) paid s2(1)
    by (simp add: recordPaymentFromQb_def getInvoiceLinkByIdOrThrow_def Let_def
          recordPayment_fields)
  then show ?thesis using l2 s2(2) by simp
qed

lemma recordPaymentFromQb_not_paid:
  assumes link: "getInvoiceLinkById s lid = Some link"
      and unpaid: "qbStatus (recordPayment link (payment\<lparr>syncedAt := now\<rparr>) now) \<noteq> QB_PAID"
  shows "\<exists>s'. recordPaymentFromQb ctx lid payment now s =
                 (Inr (recordPayment link (payment\<lparr>syncedAt := now\<rparr>) now), s') \<and>
              getInvoiceLinkById s' lid =
                Some (recordPayment link (payment\<lparr>syncedAt := now\<rparr>) now) \<and>
              billableEvents s' = billableEvents s"
proof -
  let ?u = "recordPayment link (payment\<lparr>syncedAt := now\<rparr>) now"
  have id: "linkId ?u = lid"
    using getInvoiceLinkById_id [OF link] by (simp add: recordPayment_fields)
  have same: "?u\<lparr>linkUpdatedAt := now\<rparr> = ?u"
    by (simp add: recordPayment_def Let_def)
  from updateInvoiceLink_found [OF link id, of now]
  obtain s1 where s1: "updateInvoiceLink lid ?u now s = Inr s1"
      "getInvoiceLinkById s1 lid = Some ?u" "billableEvents s1 = billableEvents s"
    using same by auto
  have "recordPaymentFromQb ctx lid payment now s =
          (Inr ?u, auditLog ctx ''PAYMENT_RECORD'' ''INVOICE_LINK'' lid s1)"
    using link s1(1) unpaid
    by (simp add: recordPaymentFromQb_def getInvoiceLinkByIdOrThrow_def Let_def)
  then show ?thesis using s1(2,3) by simp
qed

text \<open>
  Claim C3. Let \<open>updated\<close> be the link after \<open>recordPayment\<close>, with the total and
  the balance that the code computes in doubles. If its balance is at
  most 0, the call of \<open>recordPaymentFromQb\<close> returns and stores the link with status
  \<open>PAID\<close> and \<open>paidInFullDate\<close> set to the payment's date, and the linked billable
  event is stored with status \<open>PAID\<close> and a new history entry. Otherwise the link's
  status is \<open>PARTIAL\<close> if \<open>totalPaid\<close> is above 0 and its old status if not;
  unless that old status is \<open>PAID\<close>, the call returns and stores the link and changes
  no event. For a link of amount 1000 with nothing
  paid, a payment of 400 gives \<open>PARTIAL\<close> and balance 600, and a following payment of
  600 gives \<open>PAID\<close>, balance 0 and \<open>paidInFullDate\<close>.
\<close>

theorem recordPaymentFromQb_status_derivation:
  assumes "getInvoiceLinkById s lid = Some link"
      and "updated = recordPayment link (payment\<lparr>syncedAt := now\<rparr>) now"
  shows "(balance updated \<le> 0 \<and> getEventById s (billableEventId link) = Some event \<longrightarrow>
            (\<exists>s' paidEvent.
               recordPaymentFromQb ctx lid payment now s = (Inr updated, s') \<and>
               getInvoiceLinkById s' lid = Some updated \<and>
               qbStatus updated = QB_PAID \<and>
               paidInFullDate updated = Some (paymentDate payment) \<and>
               getEventById s' (billableEventId link) = Some paidEvent \<and>
               evStatus paidEvent = PAID \<and>
               statusHistory paidEvent = statusHistory event @
                 [\<lparr>seStatus = PAID, seTimestamp = now, seUserId = userId ctx,
                   seReason = Some ''Payment received''\<rparr>])) \<and>
         (\<not> balance updated \<le> 0 \<longrightarrow>
            qbStatus updated = (if totalPaid updated > 0 then QB_PARTIAL else qbStatus link) \<and>
            paidInFullDate updated = paidInFullDate link \<and>
            (qbStatus updated \<noteq> QB_PAID \<longrightarrow>
               (\<exists>s'. recordPaymentFromQb ctx lid payment now s = (Inr updated, s') \<and>
                  getInvoiceLinkById s' lid = Some updated \<and>
                  billableEvents s' = billableEvents s))) \<and>
         (linkAmount link = 1000 \<and> totalPaid link = 0 \<and> payAmount payment = 400 \<longrightarrow>
            qbStatus updated = QB_PARTIAL \<and> balance updated = 600 \<and>
            (payAmount payment2 = 600 \<longrightarrow>
               qbStatus (recordPayment updated payment2 now2) = QB_PAID \<and>
               balance (recordPayment updated payment2 now2) = 0 \<and>
               paidInFullDate (recordPayment updated payment2 now2)
                 = Some (paymentDate payment2)))"
proof (intro conjI impI)
  assume a: "balance updated \<le> 0 \<and> getEventById s (billableEventId link) = Some event"
  then have paid: "qbStatus (recordPayment link (payment\<lparr>syncedAt := now\<rparr>) now) = QB_PAID"
    using recordPayment_status [of link "payment\<lparr>syncedAt := now\<rparr>" now] assms(2) by simp
  have date: "paidInFullDate updated = Some (paymentDate payment)"
    using recordPayment_paidInFullDate [of link "payment\<lparr>syncedAt := now\<rparr>" now] assms(2) a
    by simp
  from a have ev: "getEventById s (billableEventId link) = Some event" by simp
  from recordPaymentFromQb_paid [OF assms(1) ev paid, of ctx]
  show "\<exists>s' paidEvent.
          recordPaymentFromQb ctx lid payment now s = (Inr updated, s') \<and>
          getInvoiceLinkById s' lid = Some updated \<and>
          qbStatus updated = QB_PAID \<and>
          paidInFullDate updated = Some (paymentDate payment) \<and>
          getEventById s' (billableEventId link) = Some paidEvent \<and>
          evStatus paidEvent = PAID \<and>
          statusHistory paidEvent = statusHistory event @
            [\<lparr>seStatus = PAID, seTimestamp = now, seUserId = userId ctx,
              seReason = Some ''Payment received''\<rparr>]"
    using paid date assms(2) by (auto simp: updateEventStatus_fields)
next
  assume b: "\<not> balance updated \<le> 0"
  show "qbStatus updated = (if totalPaid updated > 0 then QB_PARTIAL else qbStatus link)"
    using recordPayment_status [of link "payment\<lparr>syncedAt := now\<rparr>" now] assms(2) b by simp
  show "paidInFullDate updated = paidInFullDate link"
    using recordPayment_paidInFullDate [of link "payment\<lparr>syncedAt := now\<rparr>" now] assms(2) b
    by simp
  assume "qbStatus updated \<noteq> QB_PAID"
  then have unpaid: "qbStatus (recordPayment link (payment\<lparr>syncedAt := now\<rparr>) now) \<noteq> QB_PAID"
    using assms(2) by simp
  from recordPaymentFromQb_not_paid [OF assms(1) unpaid, of ctx]
  show "\<exists>s'. recordPaymentFromQb ctx lid payment now s = (Inr updated, s') \<and>
          getInvoiceLinkById s' lid = Some updated \<and>
          billableEvents s' = billableEvents s"
    using assms(2) by auto
next
  assume c: "linkAmount link = 1000 \<and> totalPaid link = 0 \<and> payAmount payment = 400"
  show "qbStatus updated = QB_PARTIAL"
    using c assms(2) by (simp add: recordPayment_def Let_def number_eval)
  show "balance updated = 600"
    using c assms(2) by (simp add: recordPayment_def Let_def number_eval)
  assume d: "payAmount payment2 = 600"
  show "qbStatus (recordPayment updated payment2 now2) = QB_PAID"
    using c d assms(2) by (simp add: recordPayment_def Let_def number_eval)
  show "balance (recordPayment updated payment2 now2) = 0"
    using c d assms(2) by (simp add: recordPayment_def Let_def number_eval)
  show "paidInFullDate (recordPayment updated payment2 now2) = Some (paymentDate payment2)"
    using c d assms(2) by (simp add: recordPayment_def Let_def number_eval)
qed

theorem recordPaymentFromQb_status_derivation_witness:
  "getInvoiceLinkById exampleStore ''link-1'' = Some exampleLink \<and>
   getEventById exampleStore ''event-1'' = Some exampleEvent \<and>
   (\<exists>s' updated paidEvent.
      recordPaymentFromQb exampleContext ''link-1'' (examplePayment 1000 ''2024-01-10'')
          ''2024-01-11T08:00:00.000Z'' exampleStore = (Inr updated, s') \<and>
      balance updated = 0 \<and>
      qbStatus updated = QB_PAID \<and>
      paidInFullDate updated = Some ''2024-01-10'' \<and>
      getInvoiceLinkById s' ''link-1'' = Some updated \<and>
      getEventById s' ''event-1'' = Some paidEvent \<and> evStatus paidEvent = PAID)"
proof -
  let ?p = "examplePayment 1000 ''2024-01-10''"
  let ?now = "''2024-01-11T08:00:00.000Z''"
  let ?u = "recordPayment exampleLink (?p\<lparr>syncedAt := ?now\<rparr>) ?now"
  have l: "getInvoiceLinkById exampleStore ''link-1'' = Some exampleLink"
    by (simp add: store_eval)
  have e: "getEventById exampleStore ''event-1'' = Some exampleEvent"
    by (simp add: store_eval)
  have b: "balance ?u = 0"
    by (simp add: recordPayment_fields exampleLink_def examplePayment_def number_eval)
  have i: "billableEventId exampleLink = ''event-1''"
    by (simp add: exampleLink_def)
  have d: "paymentDate ?p = ''2024-01-10''"
    by (simp add: examplePayment_def)
  have "balance ?u \<le> 0 \<and>
        getEventById exampleStore (billableEventId exampleLink) = Some exampleEvent"
    using b e i by simp
  with recordPaymentFromQb_status_derivation [OF l refl, where payment = ?p
        and now = ?now and event = exampleEvent and ctx = exampleContext
        and ?payment2.0 = ?p and ?now2.0 = ?now]
  obtain s' paidEvent where r:
      "recordPaymentFromQb exampleContext ''link-1'' ?p ?now exampleStore = (Inr ?u, s')"
      "getInvoiceLinkById s' ''link-1'' = Some ?u"
      "qbStatus ?u = QB_PAID"
      "paidInFullDate ?u = Some (paymentDate ?p)"
      "getEventById s' (billableEventId exampleLink) = Some paidEvent"
      "evStatus paidEvent = PAID"
    by blast
  show ?thesis
    using l e b r i d
    by (intro conjI exI [of _ s'] exI [of _ ?u] exI [of _ paidEvent]) simp_all
qed

section \<open>Overdue links and aging buckets\<close>

lemma ceiling_days_positive:
  "0 < \<lceil>real_of_int x / (1000 * 60 * 60 * 24)\<rceil> \<longleftrightarrow> 0 < x"
proof -
  have "0 < \<lceil>real_of_int x / 86400000\<rceil> \<longleftrightarrow> 0 < real_of_int x / 86400000"
    by (simp add: zero_less_ceiling)
  also have "\<dots> \<longleftrightarrow> 0 < x"
    by (simp add: zero_less_divide_iff)
  finally show ?thesis by simp
qed

lemma ceiling_whole_days:
  "\<lceil>real_of_int (k * (1000 * 60 * 60 * 24)) / (1000 * 60 * 60 * 24)\<rceil> = k"
  by simp

lemma isOverdue_iff:
  assumes "getTime (dueDate link) = Some dueMs"
  shows "isOverdue getTime nowMs link \<longleftrightarrow>
           qbStatus link \<noteq> QB_PAID \<and> 0 < balance link \<and> dueMs < nowMs"
proof -
  let ?days = "\<lceil>real_of_int (nowMs - dueMs) / (1000 * 60 * 60 * 24)\<rceil>"
  have "getDaysOverdue getTime nowMs link =
          Some (if qbStatus link = QB_PAID \<or> balance link \<le> 0 then 0 else max 0 ?days)"
    using assms by (simp add: getDaysOverdue_def Let_def)
  then have "isOverdue getTime nowMs link \<longleftrightarrow>
               qbStatus link \<noteq> QB_PAID \<and> 0 < balance link \<and> 0 < max 0 ?days"
    by (auto simp: isOverdue_def)
  also have "0 < max 0 ?days \<longleftrightarrow> 0 < ?days"
    by (simp only: max_def split: if_splits) auto
  also have "0 < ?days \<longleftrightarrow> dueMs < nowMs"
    using ceiling_days_positive [of "nowMs - dueMs"] by (simp only:) auto
  finally show ?thesis .
qed

lemma isOverdue_balance: "isOverdue getTime nowMs link \<Longrightarrow> 0 < balance link"
  by (auto simp: isOverdue_def getDaysOverdue_def split: if_splits)

lemma agingBucket_Some:
  "agingBucket (Some d) =
     (if d \<le> 30 then Days_1_30 else if d \<le> 60 then Days_31_60
      else if d \<le> 90 then Days_61_90 else Days_90_plus)"
  by (simp add: agingBucket_def numLe_def)

text \<open>
  Claim C7, as the code has it. For a link whose due date parses: the link is overdue
  if and only if its status is not \<open>PAID\<close>, its balance is above 0 and the clock is
  after the due date; \<open>getDaysOverdue\<close> is 0 for a link that is \<open>PAID\<close> or has no
  positive balance, and otherwise the ceiling of the time since the due date in whole
  days, floored at 0; the report gives an overdue link at least one day and the bucket
  1-30, 31-60, 61-90 or 90+ by its days with inclusive upper bounds; a link due 45 days
  ago with a positive balance and a status other than \<open>PAID\<close> is in the bucket 31-60;
  and a link with balance 0 is never overdue.
\<close>

theorem overdue_and_aging_buckets:
  assumes "getTime (dueDate link) = Some dueMs"
      and "days = \<lceil>real_of_int (nowMs - dueMs) / (1000 * 60 * 60 * 24)\<rceil>"
  shows "(isOverdue getTime nowMs link \<longleftrightarrow>
            qbStatus link \<noteq> QB_PAID \<and> 0 < balance link \<and> dueMs < nowMs) \<and>
         getDaysOverdue getTime nowMs link =
           Some (if qbStatus link = QB_PAID \<or> balance link \<le> 0 then 0 else max 0 days) \<and>
         (isOverdue getTime nowMs link \<longrightarrow>
            reportDaysOverdue getTime nowMs link = Some days \<and> 1 \<le> days \<and>
            agingBucket (reportDaysOverdue getTime nowMs link) =
              (if days \<le> 30 then Days_1_30 else if days \<le> 60 then Days_31_60
               else if days \<le> 90 then Days_61_90 else Days_90_plus)) \<and>
         (qbStatus link \<noteq> QB_PAID \<and> 0 < balance link \<and>
          nowMs - dueMs = 45 * (1000 * 60 * 60 * 24) \<longrightarrow>
            isOverdue getTime nowMs link \<and>
            agingBucket (reportDaysOverdue getTime nowMs link) = Days_31_60) \<and>
         (balance link = 0 \<longrightarrow> \<not> isOverdue getTime' nowMs' link)"
proof (intro conjI impI)
  show "isOverdue getTime nowMs link \<longleftrightarrow>
          qbStatus link \<noteq> QB_PAID \<and> 0 < balance link \<and> dueMs < nowMs"
    using assms(1) by (rule isOverdue_iff)
next
  show "getDaysOverdue getTime nowMs link =
          Some (if qbStatus link = QB_PAID \<or> balance link \<le> 0 then 0 else max 0 days)"
    using assms by (simp add: getDaysOverdue_def Let_def)
next
  assume o: "isOverdue getTime nowMs link"
  show r: "reportDaysOverdue getTime nowMs link = Some days"
    using assms by (simp add: reportDaysOverdue_def)
  from o have "dueMs < nowMs" using isOverdue_iff [of getTime link dueMs nowMs] assms(1) by simp
  then have "0 < days"
    using ceiling_days_positive [of "nowMs - dueMs"] assms(2) by simp
  then show "1 \<le> days" by simp
  show "agingBucket (reportDaysOverdue getTime nowMs link) =
          (if days \<le> 30 then Days_1_30 else if days \<le> 60 then Days_31_60
           else if days \<le> 90 then Days_61_90 else Days_90_plus)"
    by (simp only: r agingBucket_Some)
next
  assume a: "qbStatus link \<noteq> QB_PAID \<and> 0 < balance link \<and>
             nowMs - dueMs = 45 * (1000 * 60 * 60 * 24)"
  then have "dueMs < nowMs" by simp
  with a show "isOverdue getTime nowMs link"
    using isOverdue_iff [of getTime link dueMs nowMs] assms(1) by simp
  have "days = 45"
    using a assms(2) ceiling_whole_days [of 45] by simp
  then show "agingBucket (reportDaysOverdue getTime nowMs link) = Days_31_60"
    using assms(1,2) by (simp add: reportDaysOverdue_def agingBucket_Some)
next
  assume "balance link = 0"
  then show "\<not> isOverdue getTime' nowMs' link"
    using isOverdue_balance [of getTime' nowMs' link] by auto
qed

theorem overdue_and_aging_buckets_witness:
  "exampleGetTime (dueDate exampleLink) = Some 1705276800000 \<and>
   isOverdue exampleGetTime exampleNowMs exampleLink \<and>
   getDaysOverdue exampleGetTime exampleNowMs exampleLink = Some 45 \<and>
   agingBucket (reportDaysOverdue exampleGetTime exampleNowMs exampleLink) = Days_31_60"
proof -
  have g: "exampleGetTime (dueDate exampleLink) = Some 1705276800000"
    by (simp add: exampleGetTime_def exampleLink_def)
  have d: "(45::int) = \<lceil>real_of_int (exampleNowMs - 1705276800000) / (1000 * 60 * 60 * 24)\<rceil>"
    by (simp add: exampleNowMs_def)
  have l: "qbStatus exampleLink \<noteq> QB_PAID" "0 < balance exampleLink"
      "exampleNowMs - 1705276800000 = 45 * (1000 * 60 * 60 * 24)"
    by (simp_all add: exampleLink_def exampleNowMs_def)
  note t = overdue_and_aging_buckets [where getTime = exampleGetTime and link = exampleLink
      and dueMs = 1705276800000 and days = 45 and nowMs = exampleNowMs
      and getTime' = exampleGetTime and nowMs' = exampleNowMs, OF g d]
  have o: "isOverdue exampleGetTime exampleNowMs exampleLink"
    using t l by blast
  have b: "agingBucket (reportDaysOverdue exampleGetTime exampleNowMs exampleLink) = Days_31_60"
    using t l by blast
  have n: "getDaysOverdue exampleGetTime exampleNowMs exampleLink = Some 45"
    using t l(1,2) by simp
  show ?thesis
    using g o b n by blast
qed

text \<open>
  Claim C7 as stated fails for a link that the sync of the accounting system has marked
  \<open>PAID\<close> while a balance remains: \<open>updateStatusFromQb\<close> stores such a link, its
  balance is above 0 and the clock is after its due date, yet it is not overdue and has
  0 days overdue, where the ceiling of the time since the due date is 45 days.
\<close>

theorem overdue_paid_status_counterexample:
  "updateStatusFromQb ''link-1'' QB_PAID ''2024-01-20T08:00:00.000Z'' exampleStore
     = (Inr syncedPaidLink, exampleStore\<lparr>invoiceLinks := [syncedPaidLink]\<rparr>) \<and>
   0 < balance syncedPaidLink \<and>
   exampleGetTime (dueDate syncedPaidLink) = Some 1705276800000 \<and>
   1705276800000 < exampleNowMs \<and>
   \<not> isOverdue exampleGetTime exampleNowMs syncedPaidLink \<and>
   getDaysOverdue exampleGetTime exampleNowMs syncedPaidLink = Some 0 \<and>
   \<lceil>real_of_int (exampleNowMs - 1705276800000) / (1000 * 60 * 60 * 24)\<rceil> = 45"
  by (simp add: updateStatusFromQb_def getInvoiceLinkByIdOrThrow_def updateInvoiceLink_def
        getInvoiceLinkById_def exampleStore_def syncedPaidLink_def exampleLink_def
        exampleGetTime_def exampleNowMs_def isOverdue_def getDaysOverdue_def Let_def)

section \<open>Creating events\<close>

lemma createBillableEvent_key:
  assumes "createBillableEvent env ni now uuid = Inr ev"
  shows "generateIdempotencyKey (envUpperOther env) (envNewDate env)
           (neClientCode ni) (neControlNumber ni) (DateString (neTriggerDate ni))
           (neFeeType ni) = Inr (idempotencyKey ev)"
  using assms
  by (auto simp: createBillableEvent_def split: sum.splits if_splits)

lemma idempotencyKeyExists_iff:
  "idempotencyKeyExists s key \<longleftrightarrow> key \<in> set (map idempotencyKey (billableEvents s))"
  by (auto simp: idempotencyKeyExists_def list_ex_iff)

lemma getEventByIdempotencyKey_None_iff:
  "getEventByIdempotencyKey s key = None \<longleftrightarrow> \<not> idempotencyKeyExists s key"
  by (auto simp: getEventByIdempotencyKey_def idempotencyKeyExists_def find_None_iff list_ex_iff)

lemma validateBeforeCreate_Inr:
  "validateBeforeCreate env s cc cn td ft = Inr key \<longleftrightarrow>
     generateIdempotencyKey (envUpperOther env) (envNewDate env) cc cn td ft = Inr key \<and>
     \<not> idempotencyKeyExists s key"
  by (auto simp: validateBeforeCreate_def split: sum.splits)

lemma createEvent_failure:
  "createEvent env ctx input now uuid s = (Inl e, s') \<Longrightarrow> s' = s"
  by (auto simp: createEvent_def split: option.splits sum.splits)

lemma createEvent_success:
  assumes "createEvent env ctx input now uuid s = (Inr ev, s')"
  shows "\<exists>policy. getPolicyByClientId s (ciClientId input) = Some policy \<and>
           generateIdempotencyKey (envUpperOther env) (envNewDate env) (policyClientCode policy)
             (ciControlNumber input) (DateString (ciTriggerDate input)) (ciFeeType input)
             = Inr (idempotencyKey ev) \<and>
           \<not> idempotencyKeyExists s (idempotencyKey ev) \<and>
           billableEvents s' = billableEvents s @ [ev] \<and>
           clientPolicies s' = clientPolicies s \<and>
           invoiceLinks s' = invoiceLinks s"
proof -
  from assms obtain policy key amount s1 where
      p: "getPolicyByClientId s (ciClientId input) = Some policy"
    and v: "validateBeforeCreate env s (policyClientCode policy) (ciControlNumber input)
              (DateString (ciTriggerDate input)) (ciFeeType input) = Inr key"
    and c: "createBillableEvent env (newEventInput policy ctx input amount) now uuid = Inr ev"
    and sv: "saveEvent ev s = Inr s1"
    and s': "s' = auditLog ctx ''CREATE'' ''BILLABLE_EVENT'' (evId ev) s1"
    by (auto simp: createEvent_def split: option.splits sum.splits)
  from createBillableEvent_key [OF c]
  have k: "generateIdempotencyKey (envUpperOther env) (envNewDate env) (policyClientCode policy)
             (ciControlNumber input) (DateString (ciTriggerDate input)) (ciFeeType input)
             = Inr (idempotencyKey ev)"
    by (simp add: newEventInput_def)
  with v have "key = idempotencyKey ev" "\<not> idempotencyKeyExists s (idempotencyKey ev)"
    by (auto simp: validateBeforeCreate_Inr)
  moreover from sv have "s1 = s\<lparr>billableEvents := billableEvents s @ [ev]\<rparr>"
    by (auto simp: saveEvent_def split: option.splits)
  ultimately show ?thesis
    using p k s' by (simp add: auditLog_def saveAuditLog_def)
qed

lemma createEvent_duplicate:
  assumes "getPolicyByClientId s (ciClientId input) = Some policy"
      and "generateIdempotencyKey (envUpperOther env) (envNewDate env) (policyClientCode policy)
             (ciControlNumber input) (DateString (ciTriggerDate input)) (ciFeeType input)
             = Inr key"
      and "idempotencyKeyExists s key"
  shows "createEvent env ctx input now uuid s = (Inl (DuplicateError key), s)"
  using assms by (simp add: createEvent_def validateBeforeCreate_def)

lemma createEvent_distinct:
  assumes "distinct (map idempotencyKey (billableEvents s))"
      and "createEvent env ctx input now uuid s = (r, s')"
  shows "distinct (map idempotencyKey (billableEvents s'))"
proof (cases r)
  case (Inl e)
  with assms show ?thesis using createEvent_failure by metis
next
  case (Inr ev)
  with createEvent_success [of env ctx input now uuid s ev s'] assms
  show ?thesis by (auto simp: idempotencyKeyExists_iff)
qed

lemma getPolicyByClientId_cong:
  "clientPolicies s' = clientPolicies s \<Longrightarrow> getPolicyByClientId s' c = getPolicyByClientId s c"
  by (simp add: getPolicyByClientId_def)

text \<open>
  Claim C1. Let a first call of \<open>createEvent\<close> succeed with \<open>event1\<close>, and let the
  input of a second call, made on the storage the first one left, derive the key of
  \<open>event1\<close>. Then the first call has derived that key from its own input and appended
  exactly \<open>event1\<close> to the stored events; the second call throws
  \<open>DuplicateError\<close> with that key and leaves the storage, so also the first event, as
  it was. Any call of \<open>createEvent\<close>, and so any sequence of such calls made one after
  the other, keeps the keys of the stored events distinct.
\<close>

theorem createEvent_second_call_duplicate:
  assumes "createEvent env ctx1 input1 now1 uuid1 s = (Inr event1, s1)"
      and "getPolicyByClientId s1 (ciClientId input2) = Some policy2"
      and "generateIdempotencyKey (envUpperOther env) (envNewDate env) (policyClientCode policy2)
             (ciControlNumber input2) (DateString (ciTriggerDate input2)) (ciFeeType input2)
             = Inr (idempotencyKey event1)"
  shows "(\<exists>policy1. getPolicyByClientId s (ciClientId input1) = Some policy1 \<and>
            generateIdempotencyKey (envUpperOther env) (envNewDate env) (policyClientCode policy1)
              (ciControlNumber input1) (DateString (ciTriggerDate input1)) (ciFeeType input1)
              = Inr (idempotencyKey event1)) \<and>
         billableEvents s1 = billableEvents s @ [event1] \<and>
         createEvent env ctx2 input2 now2 uuid2 s1
           = (Inl (DuplicateError (idempotencyKey event1)), s1) \<and>
         (distinct (map idempotencyKey (billableEvents s)) \<longrightarrow>
            distinct (map idempotencyKey (billableEvents s1))) \<and>
         (distinct (map idempotencyKey (billableEvents s0)) \<and>
          createEvent env0 ctx0 input0 now0 uuid0 s0 = (r0, s0') \<longrightarrow>
            distinct (map idempotencyKey (billableEvents s0')))"
proof (intro conjI impI)
  from createEvent_success [OF assms(1)]
  obtain policy1 where f:
      "getPolicyByClientId s (ciClientId input1) = Some policy1"
      "generateIdempotencyKey (envUpperOther env) (envNewDate env) (policyClientCode policy1)
         (ciControlNumber input1) (DateString (ciTriggerDate input1)) (ciFeeType input1)
         = Inr (idempotencyKey event1)"
      "billableEvents s1 = billableEvents s @ [event1]"
    by blast
  show "\<exists>policy1. getPolicyByClientId s (ciClientId input1) = Some policy1 \<and>
          generateIdempotencyKey (envUpperOther env) (envNewDate env) (policyClientCode policy1)
            (ciControlNumber input1) (DateString (ciTriggerDate input1)) (ciFeeType input1)
            = Inr (idempotencyKey event1)"
    using f(1,2) by blast
  show "billableEvents s1 = billableEvents s @ [event1]"
    by (rule f(3))
  have "idempotencyKeyExists s1 (idempotencyKey event1)"
    using f(3) by (simp add: idempotencyKeyExists_iff)
  with assms(2,3)
  show "createEvent env ctx2 input2 now2 uuid2 s1
          = (Inl (DuplicateError (idempotencyKey event1)), s1)"
    by (rule createEvent_duplicate)
next
  assume "distinct (map idempotencyKey (billableEvents s))"
  then show "distinct (map idempotencyKey (billableEvents s1))"
    using assms(1) by (rule createEvent_distinct)
next
  assume "distinct (map idempotencyKey (billableEvents s0)) \<and>
          createEvent env0 ctx0 input0 now0 uuid0 s0 = (r0, s0')"
  then show "distinct (map idempotencyKey (billableEvents s0'))"
    using createEvent_distinct by blast
qed

subsection \<open>The example call\<close>

lemma example_key:
  "generateIdempotencyKey exampleUpperOther exampleNewDate
     ''acme'' ''PL2'' (DateString ''2023-12-15'') PLACEMENT_FEE
     = Inr ''ACME-PL2-20231215-PLACEMENT_FEE''"
  by (simp add: generateIdempotencyKey_def string_eval date_eval)

lemma example_key_unsanitized:
  "generateIdempotencyKey exampleUpperOther exampleNewDate
     ''acme'' ''pl 2'' (DateString ''2023-12-15'') PLACEMENT_FEE
     = Inr ''ACME-PL2-20231215-PLACEMENT_FEE''"
  by (simp add: generateIdempotencyKey_def string_eval date_eval)

lemma example_key_schema: "IdempotencyKeySchema ''ACME-PL2-20231215-PLACEMENT_FEE''"
  by (simp add: IdempotencyKeySchema_def match_eval string_eval)

lemma example_createBillableEvent:
  "createBillableEvent exampleEnv (newEventInput examplePolicy exampleContext exampleInput 750)
     now uuid = Inr (createdEvent now uuid)"
  by (simp add: createBillableEvent_def newEventInput_def exampleEnv_def examplePolicy_def
        exampleContext_def exampleInput_def example_key example_key_schema createdEvent_def)

lemma example_eventAmount: "eventAmount examplePolicy exampleInput = Inr 750"
  by (simp add: eventAmount_def exampleInput_def)

lemma example_policy:
  "clientPolicies s = [examplePolicy] \<Longrightarrow> getPolicyByClientId s ''client-1'' = Some examplePolicy"
  by (simp add: getPolicyByClientId_def examplePolicy_def)

lemma example_validate:
  "validateBeforeCreate exampleEnv s (policyClientCode examplePolicy)
     (ciControlNumber exampleInput) (DateString (ciTriggerDate exampleInput))
     (ciFeeType exampleInput) =
     (if idempotencyKeyExists s ''ACME-PL2-20231215-PLACEMENT_FEE''
      then Inl (DuplicateError ''ACME-PL2-20231215-PLACEMENT_FEE'')
      else Inr ''ACME-PL2-20231215-PLACEMENT_FEE'')"
  by (simp add: validateBeforeCreate_def exampleEnv_def examplePolicy_def exampleInput_def
        example_key)

lemma example_store_fresh:
  "clientPolicies exampleStore = [examplePolicy]"
  "\<not> idempotencyKeyExists exampleStore ''ACME-PL2-20231215-PLACEMENT_FEE''"
  "billableEvents exampleStore = [exampleEvent]"
  "auditLogs exampleStore = []"
  by (simp_all add: exampleStore_def idempotencyKeyExists_def exampleEvent_def)

lemma example_user: "userId exampleContext = ''user-2''"
  by (simp add: exampleContext_def)

lemma example_created_fields:
  "idempotencyKey (createdEvent now uuid) = ''ACME-PL2-20231215-PLACEMENT_FEE''"
  "evId (createdEvent now uuid) = uuid"
  by (simp_all add: createdEvent_def)

lemma example_createEvent:
  "createEvent exampleEnv exampleContext exampleInput now uuid exampleStore =
     (Inr (createdEvent now uuid),
      exampleStore\<lparr>billableEvents := [exampleEvent, createdEvent now uuid],
                   auditLogs := [createAudit uuid]\<rparr>)"
proof -
  have p: "getPolicyByClientId exampleStore (ciClientId exampleInput) = Some examplePolicy"
    by (simp add: example_policy example_store_fresh exampleInput_def)
  have sv: "saveEvent (createdEvent now uuid) exampleStore =
              Inr (exampleStore\<lparr>billableEvents := [exampleEvent, createdEvent now uuid]\<rparr>)"
    using example_store_fresh(2)
    by (simp add: saveEvent_def example_created_fields example_store_fresh(3)
          getEventByIdempotencyKey_None_iff [THEN iffD2])
  show ?thesis
    by (simp add: createEvent_def p example_validate example_store_fresh example_eventAmount
          example_createBillableEvent sv example_created_fields example_user
          auditLog_def saveAuditLog_def createAudit_def)
qed

theorem createEvent_second_call_duplicate_witness:
  "createEvent exampleEnv exampleContext exampleInput ''2023-12-15T10:00:00.000Z'' ''uuid-1''
     exampleStore =
     (Inr (createdEvent ''2023-12-15T10:00:00.000Z'' ''uuid-1''),
      exampleStore\<lparr>billableEvents :=
                     [exampleEvent, createdEvent ''2023-12-15T10:00:00.000Z'' ''uuid-1''],
                   auditLogs := [createAudit ''uuid-1'']\<rparr>) \<and>
   createEvent exampleEnv exampleContext (exampleInput\<lparr>ciControlNumber := ''pl 2''\<rparr>)
     ''2023-12-15T11:00:00.000Z'' ''uuid-2''
     (exampleStore\<lparr>billableEvents :=
                     [exampleEvent, createdEvent ''2023-12-15T10:00:00.000Z'' ''uuid-1''],
                   auditLogs := [createAudit ''uuid-1'']\<rparr>) =
     (Inl (DuplicateError ''ACME-PL2-20231215-PLACEMENT_FEE''),
      exampleStore\<lparr>billableEvents :=
                     [exampleEvent, createdEvent ''2023-12-15T10:00:00.000Z'' ''uuid-1''],
                   auditLogs := [createAudit ''uuid-1'']\<rparr>)"
proof -
  let ?ev = "createdEvent ''2023-12-15T10:00:00.000Z'' ''uuid-1''"
  let ?s1 = "exampleStore\<lparr>billableEvents := [exampleEvent, ?ev],
                          auditLogs := [createAudit ''uuid-1'']\<rparr>"
  let ?in2 = "exampleInput\<lparr>ciControlNumber := ''pl 2''\<rparr>"
  have first: "createEvent exampleEnv exampleContext exampleInput
                 ''2023-12-15T10:00:00.000Z'' ''uuid-1'' exampleStore = (Inr ?ev, ?s1)"
    by (rule example_createEvent)
  have pol: "getPolicyByClientId ?s1 (ciClientId ?in2) = Some examplePolicy"
    by (simp add: example_policy example_store_fresh exampleInput_def)
  have key: "generateIdempotencyKey (envUpperOther exampleEnv) (envNewDate exampleEnv)
               (policyClientCode examplePolicy) (ciControlNumber ?in2)
               (DateString (ciTriggerDate ?in2)) (ciFeeType ?in2)
               = Inr (idempotencyKey ?ev)"
    by (simp add: exampleEnv_def examplePolicy_def exampleInput_def createdEvent_def
          example_key_unsanitized)
  have k: "idempotencyKey ?ev = ''ACME-PL2-20231215-PLACEMENT_FEE''"
    by (simp add: createdEvent_def)
  from createEvent_second_call_duplicate [OF first pol key, where ?ctx2.0 = exampleContext
      and ?now2.0 = "''2023-12-15T11:00:00.000Z''" and ?uuid2.0 = "''uuid-2''"]
  have "createEvent exampleEnv exampleContext ?in2 ''2023-12-15T11:00:00.000Z'' ''uuid-2'' ?s1
          = (Inl (DuplicateError (idempotencyKey ?ev)), ?s1)"
    by blast
  with first show ?thesis by (simp only: k)
qed

section \<open>Two calls of \<open>createEvent\<close> at the same time\<close>

text \<open>The steps of a call, taken one after the other, are the call.\<close>

lemma runCreateAlone_createEvent:
  "runCreateAlone env ctx input now uuid s =
     (Finished (fst (createEvent env ctx input now uuid s)),
      snd (createEvent env ctx input now uuid s))"
  by (simp add: runCreateAlone_def stepCreate_def createEvent_def saveEvent_def
        split: option.splits sum.splits)

lemma example_step_validate:
  assumes "clientPolicies s = [examplePolicy]"
      and "\<not> idempotencyKeyExists s ''ACME-PL2-20231215-PLACEMENT_FEE''"
  shows "stepCreate exampleEnv exampleContext exampleInput now uuid Started s =
           (Validated examplePolicy ''ACME-PL2-20231215-PLACEMENT_FEE'', s)"
proof -
  have "getPolicyByClientId s (ciClientId exampleInput) = Some examplePolicy"
    using assms(1) by (simp add: example_policy exampleInput_def)
  then show ?thesis
    using assms(2) by (simp add: stepCreate_def example_validate)
qed

lemma example_step_prepare:
  assumes "\<not> idempotencyKeyExists s ''ACME-PL2-20231215-PLACEMENT_FEE''"
  shows "stepCreate exampleEnv exampleContext exampleInput now uuid
           (Validated examplePolicy ''ACME-PL2-20231215-PLACEMENT_FEE'') s =
           (Saving (createdEvent now uuid) None, s)"
proof -
  have "getEventByIdempotencyKey s (idempotencyKey (createdEvent now uuid)) = None"
    using assms by (simp add: getEventByIdempotencyKey_None_iff createdEvent_def)
  then show ?thesis
    by (simp add: stepCreate_def example_eventAmount example_createBillableEvent)
qed

lemma example_step_push:
  "stepCreate exampleEnv exampleContext exampleInput now uuid
     (Saving (createdEvent now' uuid') None) s =
     (Finished (Inr (createdEvent now' uuid')),
      s\<lparr>billableEvents := billableEvents s @ [createdEvent now' uuid'],
        auditLogs := auditLogs s @ [createAudit uuid']\<rparr>)"
  by (simp add: stepCreate_def auditLog_def saveAuditLog_def createAudit_def
        example_user example_created_fields)

text \<open>
  Claim C2 on the code. Two calls with the same input, started together on a storage
  that does not hold their key, take their steps in turn. Both pass
  \<open>validateBeforeCreate\<close>, both find no event with the key in \<open>saveEvent\<close>, and both
  push: both calls return an event, and the storage holds two events with one key. Run
  one after the other, the second call throws \<open>DuplicateError\<close>.
\<close>

theorem concurrent_createEvent_inserts_twice:
  "runSchedule
     (stepCreate exampleEnv exampleContext exampleInput ''2023-12-15T10:00:00.000Z'' ''uuid-1'')
     (stepCreate exampleEnv exampleContext exampleInput ''2023-12-15T10:00:00.001Z'' ''uuid-2'')
     [TaskA, TaskB, TaskA, TaskB, TaskA, TaskB] (Started, Started, exampleStore) =
     (Finished (Inr (createdEvent ''2023-12-15T10:00:00.000Z'' ''uuid-1'')),
      Finished (Inr (createdEvent ''2023-12-15T10:00:00.001Z'' ''uuid-2'')),
      exampleStore\<lparr>billableEvents :=
                     [exampleEvent, createdEvent ''2023-12-15T10:00:00.000Z'' ''uuid-1'',
                      createdEvent ''2023-12-15T10:00:00.001Z'' ''uuid-2''],
                   auditLogs := [createAudit ''uuid-1'', createAudit ''uuid-2'']\<rparr>) \<and>
   idempotencyKey (createdEvent ''2023-12-15T10:00:00.000Z'' ''uuid-1'') =
     idempotencyKey (createdEvent ''2023-12-15T10:00:00.001Z'' ''uuid-2'') \<and>
   runSchedule
     (stepCreate exampleEnv exampleContext exampleInput ''2023-12-15T10:00:00.000Z'' ''uuid-1'')
     (stepCreate exampleEnv exampleContext exampleInput ''2023-12-15T10:00:00.001Z'' ''uuid-2'')
     [TaskA, TaskA, TaskA, TaskB, TaskB, TaskB] (Started, Started, exampleStore) =
     (Finished (Inr (createdEvent ''2023-12-15T10:00:00.000Z'' ''uuid-1'')),
      Finished (Inl (DuplicateError ''ACME-PL2-20231215-PLACEMENT_FEE'')),
      exampleStore\<lparr>billableEvents :=
                     [exampleEvent, createdEvent ''2023-12-15T10:00:00.000Z'' ''uuid-1''],
                   auditLogs := [createAudit ''uuid-1'']\<rparr>)"
proof -
  let ?a = "createdEvent ''2023-12-15T10:00:00.000Z'' ''uuid-1''"
  let ?b = "createdEvent ''2023-12-15T10:00:00.001Z'' ''uuid-2''"
  let ?stepA = "stepCreate exampleEnv exampleContext exampleInput
                  ''2023-12-15T10:00:00.000Z'' ''uuid-1''"
  let ?stepB = "stepCreate exampleEnv exampleContext exampleInput
                  ''2023-12-15T10:00:00.001Z'' ''uuid-2''"
  let ?key = "''ACME-PL2-20231215-PLACEMENT_FEE''"
  let ?s1 = "exampleStore\<lparr>billableEvents := [exampleEvent, ?a],
                          auditLogs := [createAudit ''uuid-1'']\<rparr>"
  let ?s2 = "exampleStore\<lparr>billableEvents := [exampleEvent, ?a, ?b],
                          auditLogs := [createAudit ''uuid-1'', createAudit ''uuid-2'']\<rparr>"
  have a1: "?stepA Started exampleStore = (Validated examplePolicy ?key, exampleStore)"
    by (rule example_step_validate [OF example_store_fresh(1,2)])
  have b1: "?stepB Started exampleStore = (Validated examplePolicy ?key, exampleStore)"
    by (rule example_step_validate [OF example_store_fresh(1,2)])
  have a2: "?stepA (Validated examplePolicy ?key) exampleStore = (Saving ?a None, exampleStore)"
    by (rule example_step_prepare [OF example_store_fresh(2)])
  have b2: "?stepB (Validated examplePolicy ?key) exampleStore = (Saving ?b None, exampleStore)"
    by (rule example_step_prepare [OF example_store_fresh(2)])
  have a3: "?stepA (Saving ?a None) exampleStore = (Finished (Inr ?a), ?s1)"
    by (simp add: example_step_push example_store_fresh(3,4))
  have b3: "?stepB (Saving ?b None) ?s1 = (Finished (Inr ?b), ?s2)"
    by (simp add: example_step_push)
  have pol1: "getPolicyByClientId ?s1 (ciClientId exampleInput) = Some examplePolicy"
    by (simp add: example_policy example_store_fresh exampleInput_def)
  have dup: "idempotencyKeyExists ?s1 ?key"
    by (simp add: idempotencyKeyExists_def example_created_fields)
  have late: "?stepB Started ?s1 = (Finished (Inl (DuplicateError ?key)), ?s1)"
    by (simp add: stepCreate_def pol1 example_validate dup)
  have fin: "?stepB (Finished r) s = (Finished r, s)" for r s
    by (simp add: stepCreate_def)
  have interleaved:
    "runSchedule ?stepA ?stepB [TaskA, TaskB, TaskA, TaskB, TaskA, TaskB]
       (Started, Started, exampleStore) = (Finished (Inr ?a), Finished (Inr ?b), ?s2)"
    by (simp only: runSchedule.simps a1 b1 a2 b2 a3 b3 prod.case)
  have sequential:
    "runSchedule ?stepA ?stepB [TaskA, TaskA, TaskA, TaskB, TaskB, TaskB]
       (Started, Started, exampleStore) =
       (Finished (Inr ?a), Finished (Inl (DuplicateError ?key)), ?s1)"
    by (simp only: runSchedule.simps a1 a2 a3 late fin prod.case)
  have same: "idempotencyKey ?a = idempotencyKey ?b"
    by (simp add: example_created_fields)
  show ?thesis
    using interleaved sequential same by (intro conjI)
qed

end
